theory Spec2Isabelle
  imports Main
begin

section \<open>Values and exceptions of the Python program\<close>

text \<open>
  The flight search server works on parsed JSON: the vendor response, every flight record
  in it and every response the handlers return are Python values built from
  \<open>None\<close>, booleans, integers, strings, lists and dicts. A dict is an association list
  in insertion order, read with \<open>map_of\<close>. Numbers are integers (the vendor sends prices
  and durations as integers); floating-point numbers are outside this model. A string is
  a list of code points, one \<open>char\<close> each. Which code points are alphabetic and how a
  string is upper-cased is decided by the standard library, for all of Unicode: both are
  read from the environment of a call.
\<close>

datatype json =
    JNull
  | JBool bool
  | JInt int
  | JStr string
  | JList "json list"
  | JObj "(string \<times> json) list"

text \<open>An exception carries its class and the text that \<open>str(e)\<close> gives.\<close>

datatype exn =
    AttributeError string
  | TypeError string
  | ValueError string
  | KeyError string
  | IndexError string
  | OverflowError string
  | RequestException string

fun str_exn :: "exn \<Rightarrow> string" where
  "str_exn (AttributeError m) = m"
| "str_exn (TypeError m) = m"
| "str_exn (ValueError m) = m"
| "str_exn (KeyError m) = m"
| "str_exn (IndexError m) = m"
| "str_exn (OverflowError m) = m"
| "str_exn (RequestException m) = m"

fun is_request_exception :: "exn \<Rightarrow> bool" where
  "is_request_exception (RequestException m) = True"
| "is_request_exception e = False"

text \<open>Sequencing of steps that may raise: the first exception ends the computation.\<close>

definition bind :: "exn + 'a \<Rightarrow> ('a \<Rightarrow> exn + 'b) \<Rightarrow> exn + 'b" where
  "bind m f = (case m of Inl e \<Rightarrow> Inl e | Inr v \<Rightarrow> f v)"

fun mapM :: "('a \<Rightarrow> exn + 'b) \<Rightarrow> 'a list \<Rightarrow> exn + 'b list" where
  "mapM f [] = Inr []"
| "mapM f (x # xs) = bind (f x) (\<lambda>y. bind (mapM f xs) (\<lambda>ys. Inr (y # ys)))"

subsection \<open>Built-in operations\<close>

fun truthy :: "json \<Rightarrow> bool" where
  "truthy JNull = False"
| "truthy (JBool b) = b"
| "truthy (JInt n) = (n \<noteq> 0)"
| "truthy (JStr s) = (s \<noteq> [])"
| "truthy (JList xs) = (xs \<noteq> [])"
| "truthy (JObj kvs) = (kvs \<noteq> [])"

fun type_name :: "json \<Rightarrow> string" where
  "type_name JNull = ''NoneType''"
| "type_name (JBool b) = ''bool''"
| "type_name (JInt n) = ''int''"
| "type_name (JStr s) = ''str''"
| "type_name (JList xs) = ''list''"
| "type_name (JObj kvs) = ''dict''"

text \<open>A name between single quotes, as the interpreter's messages print it.\<close>

definition quoted :: "string \<Rightarrow> string" where
  "quoted s = [CHR 0x27] @ s @ [CHR 0x27]"

text \<open>\<open>d.get(key, default)\<close>: only a dict has the method.\<close>

fun py_get :: "json \<Rightarrow> string \<Rightarrow> json \<Rightarrow> exn + json" where
  "py_get (JObj kvs) k d = Inr (case map_of kvs k of Some v \<Rightarrow> v | None \<Rightarrow> d)"
| "py_get v k d =
     Inl (AttributeError (quoted (type_name v) @ '' object has no attribute '' @ quoted ''get''))"

text \<open>Decimal digits of a non-negative integer and \<open>str\<close> of an integer.\<close>

definition digit_char :: "int \<Rightarrow> char" where
  "digit_char d = char_of (48 + d)"

function digits :: "int \<Rightarrow> string" where
  "digits n = (if n < 10 then [digit_char n] else digits (n div 10) @ [digit_char (n mod 10)])"
  by pat_completeness auto
termination
  by (relation "measure nat") auto

declare digits.simps [simp del]

definition str_int :: "int \<Rightarrow> string" where
  "str_int n = (if n < 0 then ''-'' @ digits (- n) else digits n)"

text \<open>The integer a boolean or an integer stands for in arithmetic.\<close>

fun as_number :: "json \<Rightarrow> int option" where
  "as_number (JInt n) = Some n"
| "as_number (JBool b) = Some (if b then 1 else 0)"
| "as_number v = None"

text \<open>\<open>str(v)\<close> and \<open>repr(v)\<close>, which an f-string uses to print a value.\<close>

definition hex_digit :: "nat \<Rightarrow> char" where
  "hex_digit d = (if d < 10 then char_of (48 + d) else char_of (87 + d))"

definition repr_char :: "char \<Rightarrow> char \<Rightarrow> string" where
  "repr_char q c =
     (if c = q \<or> c = CHR 0x5C then [CHR 0x5C, c]
      else if c = CHR 0x09 then [CHR 0x5C, CHR ''t'']
      else if c = CHR 0x0A then [CHR 0x5C, CHR ''n'']
      else if c = CHR 0x0D then [CHR 0x5C, CHR ''r'']
      else if (of_char c :: nat) < 32 \<or> (of_char c :: nat) = 127
        then [CHR 0x5C, CHR ''x'', hex_digit ((of_char c :: nat) div 16),
              hex_digit ((of_char c :: nat) mod 16)]
      else [c])"

definition repr_str :: "string \<Rightarrow> string" where
  "repr_str s =
     (let q = (if CHR 0x27 \<in> set s \<and> CHR 0x22 \<notin> set s then CHR 0x22 else CHR 0x27)
      in [q] @ concat (map (repr_char q) s) @ [q])"

fun join :: "string \<Rightarrow> string list \<Rightarrow> string" where
  "join sep [] = []"
| "join sep [x] = x"
| "join sep (x # y # ys) = x @ sep @ join sep (y # ys)"

fun py_repr :: "json \<Rightarrow> string" where
  "py_repr JNull = ''None''"
| "py_repr (JBool b) = (if b then ''True'' else ''False'')"
| "py_repr (JInt n) = str_int n"
| "py_repr (JStr s) = repr_str s"
| "py_repr (JList xs) = ''['' @ join '', '' (map py_repr xs) @ '']''"
| "py_repr (JObj kvs) =
     ''{'' @ join '', '' (map (\<lambda>(k, v). repr_str k @ '': '' @ py_repr v) kvs) @ ''}''"

fun py_str :: "json \<Rightarrow> string" where
  "py_str (JStr s) = s"
| "py_str v = py_repr v"

text \<open>\<open>len(v)\<close>, \<open>v[0]\<close>, \<open>v[key]\<close> with a string key, iteration and \<open>needle in v\<close>.\<close>

fun py_len :: "json \<Rightarrow> exn + nat" where
  "py_len (JList xs) = Inr (length xs)"
| "py_len (JStr s) = Inr (length s)"
| "py_len (JObj kvs) = Inr (length kvs)"
| "py_len v = Inl (TypeError (''object of type '' @ quoted (type_name v) @ '' has no len()''))"

fun py_index0 :: "json \<Rightarrow> exn + json" where
  "py_index0 (JList xs) =
     (case xs of [] \<Rightarrow> Inl (IndexError ''list index out of range'') | x # _ \<Rightarrow> Inr x)"
| "py_index0 (JStr s) =
     (case s of [] \<Rightarrow> Inl (IndexError ''string index out of range'') | c # _ \<Rightarrow> Inr (JStr [c]))"
| "py_index0 (JObj kvs) = Inl (KeyError ''0'')"
| "py_index0 v = Inl (TypeError (quoted (type_name v) @ '' object is not subscriptable''))"

fun py_getitem :: "json \<Rightarrow> string \<Rightarrow> exn + json" where
  "py_getitem (JObj kvs) k =
     (case map_of kvs k of Some v \<Rightarrow> Inr v | None \<Rightarrow> Inl (KeyError (repr_str k)))"
| "py_getitem (JList xs) k =
     Inl (TypeError ''list indices must be integers or slices, not str'')"
| "py_getitem (JStr s) k =
     Inl (TypeError (''string indices must be integers, not '' @ quoted ''str''))"
| "py_getitem v k = Inl (TypeError (quoted (type_name v) @ '' object is not subscriptable''))"

fun py_iter :: "json \<Rightarrow> exn + json list" where
  "py_iter (JList xs) = Inr xs"
| "py_iter (JStr s) = Inr (map (\<lambda>c. JStr [c]) s)"
| "py_iter (JObj kvs) = Inr (map (\<lambda>kv. JStr (fst kv)) kvs)"
| "py_iter v = Inl (TypeError (quoted (type_name v) @ '' object is not iterable''))"

fun is_substring :: "string \<Rightarrow> string \<Rightarrow> bool" where
  "is_substring n [] = (n = [])"
| "is_substring n (c # cs) = (take (length n) (c # cs) = n \<or> is_substring n cs)"

fun py_in :: "string \<Rightarrow> json \<Rightarrow> exn + bool" where
  "py_in n (JStr s) = Inr (is_substring n s)"
| "py_in n (JList xs) = Inr (JStr n \<in> set xs)"
| "py_in n (JObj kvs) = Inr (n \<in> fst ` set kvs)"
| "py_in n v = Inl (TypeError (''argument of type '' @ quoted (type_name v) @ '' is not iterable''))"

text \<open>\<open>s.replace(old, new)\<close> with a one-character \<open>old\<close>.\<close>

definition replace_char :: "char \<Rightarrow> string \<Rightarrow> string \<Rightarrow> string" where
  "replace_char old new s = concat (map (\<lambda>c. if c = old then new else [c]) s)"

subsection \<open>Comparison and sorting\<close>

text \<open>
  \<open>a == b\<close> and \<open>a < b\<close> on JSON values. Booleans and integers compare as numbers,
  strings by code point, lists element by element; \<open>None\<close> and dicts have no order, and
  neither have values of different kinds.
\<close>

fun num_eq :: "json \<Rightarrow> json \<Rightarrow> bool" where
  "num_eq a b = (case (as_number a, as_number b) of (Some x, Some y) \<Rightarrow> x = y | _ \<Rightarrow> False)"

fun py_eq :: "json \<Rightarrow> json \<Rightarrow> bool" where
  "py_eq JNull b = (b = JNull)"
| "py_eq (JStr s) b = (b = JStr s)"
| "py_eq (JList xs) (JList ys) = list_all2 py_eq xs ys"
| "py_eq (JList xs) b = False"
| "py_eq (JObj kvs) (JObj kws) =
     (fst ` set kvs = fst ` set kws \<and>
      list_all (\<lambda>(k, v). case map_of kws k of Some w \<Rightarrow> py_eq v w | None \<Rightarrow> False) kvs)"
| "py_eq (JObj kvs) b = False"
| "py_eq a b = num_eq a b"

fun str_lt :: "string \<Rightarrow> string \<Rightarrow> bool" where
  "str_lt s [] = False"
| "str_lt [] (y # ys) = True"
| "str_lt (x # xs) (y # ys) = (if x = y then str_lt xs ys else (of_char x :: nat) < of_char y)"

definition not_supported :: "string \<Rightarrow> string \<Rightarrow> exn" where
  "not_supported a b = TypeError (quoted ''<'' @ '' not supported between instances of ''
      @ quoted a @ '' and '' @ quoted b)"

fun py_lt :: "json \<Rightarrow> json \<Rightarrow> exn + bool"
  and py_lt_list :: "json list \<Rightarrow> json list \<Rightarrow> exn + bool" where
  "py_lt (JStr s) (JStr t) = Inr (str_lt s t)"
| "py_lt (JList xs) (JList ys) = py_lt_list xs ys"
| "py_lt a b = (case (as_number a, as_number b) of
                  (Some x, Some y) \<Rightarrow> Inr (x < y)
                | _ \<Rightarrow> Inl (not_supported (type_name a) (type_name b)))"
| "py_lt_list xs [] = Inr False"
| "py_lt_list [] (y # ys) = Inr True"
| "py_lt_list (x # xs) (y # ys) = (if py_eq x y then py_lt_list xs ys else py_lt x y)"

text \<open>
  A sort key is a JSON value or \<open>float("inf")\<close>, the default of the key function of
  \<open>process_flight_data\<close>.
\<close>

datatype sort_key = Val json | PosInf

fun key_lt :: "sort_key \<Rightarrow> sort_key \<Rightarrow> exn + bool" where
  "key_lt (Val a) (Val b) = py_lt a b"
| "key_lt PosInf PosInf = Inr False"
| "key_lt (Val a) PosInf =
     (case as_number a of Some x \<Rightarrow> Inr True
      | None \<Rightarrow> Inl (not_supported (type_name a) ''float''))"
| "key_lt PosInf (Val b) =
     (case as_number b of Some y \<Rightarrow> Inr False
      | None \<Rightarrow> Inl (not_supported ''float'' (type_name b)))"

text \<open>
  \<open>list.sort(key=f)\<close> is stable, compares keys with \<open><\<close> only and raises what a
  comparison raises. It is modelled as a stable insertion sort. On the keys that reach it
  in this program (numbers, \<open>None\<close>, and empty strings, lists and dicts) every comparison
  sort raises on the same lists: \<open>None\<close> and a dict are comparable with nothing, and two
  comparable kinds are never comparable with each other.
\<close>

fun insort_by :: "('a \<Rightarrow> sort_key) \<Rightarrow> 'a \<Rightarrow> 'a list \<Rightarrow> exn + 'a list" where
  "insort_by f x [] = Inr [x]"
| "insort_by f x (y # ys) =
     bind (key_lt (f y) (f x))
       (\<lambda>lt. if lt then bind (insort_by f x ys) (\<lambda>r. Inr (y # r)) else Inr (x # y # ys))"

fun py_sort_by :: "('a \<Rightarrow> sort_key) \<Rightarrow> 'a list \<Rightarrow> exn + 'a list" where
  "py_sort_by f [] = Inr []"
| "py_sort_by f (x # xs) = bind (py_sort_by f xs) (insort_by f x)"

subsection \<open>Number formatting\<close>

text \<open>
  \<open>format(p, ",.0f")\<close> of an integer converts it to a double first (round to nearest,
  ties to even, on 53 bits; OverflowError from \<open>2^1024\<close> on) and prints the double, which is
  an integer, with a comma between groups of three digits.
\<close>

function bit_length :: "int \<Rightarrow> nat" where
  "bit_length n = (if n \<le> 0 then 0 else Suc (bit_length (n div 2)))"
  by pat_completeness auto
termination
  by (relation "measure nat") auto

declare bit_length.simps [simp del]

definition float_of_int :: "int \<Rightarrow> exn + int" where
  "float_of_int p =
     (let n = \<bar>p\<bar>;
          e = bit_length n - 53;
          q = n div 2 ^ e;
          r = n mod 2 ^ e;
          q' = (if 2 * r > 2 ^ e \<or> (2 * r = 2 ^ e \<and> odd q) then q + 1 else q);
          v = q' * 2 ^ e
      in if v \<ge> 2 ^ 1024 then Inl (OverflowError ''int too large to convert to float'')
         else Inr (sgn p * v))"

function group3 :: "string \<Rightarrow> string" where
  "group3 ds = (if length ds \<le> 3 then ds
                else group3 (take (length ds - 3) ds) @ '','' @ drop (length ds - 3) ds)"
  by pat_completeness auto
termination
  by (relation "measure length") auto

declare group3.simps [simp del]

fun format_comma_0f :: "json \<Rightarrow> exn + string" where
  "format_comma_0f (JStr s) =
     Inl (ValueError (''Unknown format code '' @ quoted ''f'' @ '' for object of type ''
            @ quoted ''str''))"
| "format_comma_0f v =
     (case as_number v of
        None \<Rightarrow> Inl (TypeError (''unsupported format string passed to '' @ type_name v
                  @ ''.__format__''))
      | Some p \<Rightarrow> bind (float_of_int p)
          (\<lambda>x. Inr ((if x < 0 then ''-'' else []) @ group3 (digits \<bar>x\<bar>))))"

section \<open>The environment of a call\<close>

text \<open>
  What the program reads from outside: the environment variable \<open>SERPAPI_KEY\<close>, the
  answer of the vendor to an HTTP request (\<open>requests.get\<close> raises or gives a response,
  whose status is an error or not and whose body parses as JSON or raises), the clock
  (\<open>datetime.now().isoformat()\<close>), and three functions of the standard library:
  \<open>datetime.fromisoformat(s).strftime("%b-%d, %Y | %I:%M %p")\<close>, which raises on a string
  it cannot parse; the Unicode property that makes a code point alphabetic; and
  \<open>str.upper\<close>, which may change the length of a string.
\<close>

record request =
  url :: string
  params :: "(string \<times> string) list"
  timeout :: nat

record response =
  status_error :: "exn option"
  body :: "exn + json"

record env =
  serpapi_key :: "string option"
  requests_get :: "request \<Rightarrow> exn + response"
  now_isoformat :: string
  fromisoformat_strftime :: "string \<Rightarrow> exn + string"
  alphabetic :: "char \<Rightarrow> bool"
  upper :: "string \<Rightarrow> string"

text \<open>
  \<open>s.isalpha()\<close>: the string has at least one character and all its characters are
  alphabetic.
\<close>

definition isalpha :: "env \<Rightarrow> string \<Rightarrow> bool" where
  "isalpha env s = (s \<noteq> [] \<and> list_all (alphabetic env) s)"

section \<open>Formatting helpers\<close>

text \<open>
  \<open>format_duration(minutes)\<close>: a falsy argument gives \<open>Unknown\<close>; floor division
  and modulo by 60 raise TypeError on anything that is not a number.
\<close>

definition format_duration :: "json \<Rightarrow> exn + string" where
  "format_duration minutes =
     (if \<not> truthy minutes then Inr ''Unknown''
      else case as_number minutes of
        None \<Rightarrow> Inl (TypeError (''unsupported operand type(s) for //: ''
                  @ quoted (type_name minutes) @ '' and '' @ quoted ''int''))
      | Some m \<Rightarrow>
          (let hours = m div 60; remaining_minutes = m mod 60
           in if hours > 0 \<and> remaining_minutes > 0
                then Inr (str_int hours @ ''h '' @ str_int remaining_minutes @ ''m'')
              else if hours > 0 then Inr (str_int hours @ ''h'')
              else Inr (str_int remaining_minutes @ ''m'')))"

text \<open>
  \<open>format_time(time_str)\<close>: the argument is whatever the vendor sent under \<open>time\<close>.
  The bare \<open>except\<close> turns every exception of the body into the argument itself.
\<close>

fun py_replace :: "json \<Rightarrow> char \<Rightarrow> string \<Rightarrow> exn + string" where
  "py_replace (JStr s) old new = Inr (replace_char old new s)"
| "py_replace v old new =
     Inl (AttributeError (quoted (type_name v) @ '' object has no attribute ''
            @ quoted ''replace''))"

definition format_time_body :: "env \<Rightarrow> json \<Rightarrow> exn + json" where
  "format_time_body env time_str =
     bind (py_in ''|'' time_str) (\<lambda>has_bar.
       if has_bar then Inr time_str
       else bind (py_in ''T'' time_str) (\<lambda>has_t.
         if has_t then
           bind (py_replace time_str (CHR ''Z'') ''+00:00'') (\<lambda>s.
           bind (fromisoformat_strftime env s) (\<lambda>r. Inr (JStr r)))
         else Inr time_str))"

definition format_time :: "env \<Rightarrow> json \<Rightarrow> json" where
  "format_time env time_str =
     (if \<not> truthy time_str then JStr ''Unknown''
      else case format_time_body env time_str of
             Inr r \<Rightarrow> r
           | Inl e \<Rightarrow> time_str)"

section \<open>Booking link generator\<close>

text \<open>
  \<open>generate_booking_link\<close> returns from its third method; the airline table and the
  meta-search link written after that return are never run and are not part of the model.
  The \<open>except\<close> branch gives the plain search link.
\<close>

definition opt_truthy :: "string option \<Rightarrow> bool" where
  "opt_truthy r = (case r of None \<Rightarrow> False | Some s \<Rightarrow> s \<noteq> [])"

definition opt_str :: "string option \<Rightarrow> string" where
  "opt_str r = (case r of None \<Rightarrow> ''None'' | Some s \<Rightarrow> s)"

definition google_flights_base :: string where
  "google_flights_base = ''https://www.google.com/travel/flights''"

definition generic_link :: "string \<Rightarrow> string \<Rightarrow> string \<Rightarrow> string option \<Rightarrow> string" where
  "generic_link source destination departure_date return_date =
     (let params =
            [''hl=en'', ''curr=USD'', ''f=0'',
             ''tfs=CAEQAxoaagwIAhIIL20vMDJqNnQSCjIwMjUtMDMtMTUaGhIKMjAyNS0wMy0yMBAC'',
             ''q=Flights%20from%20'' @ source @ ''%20to%20'' @ destination,
             ''d1='' @ departure_date]
            @ (if opt_truthy return_date then [''d2='' @ opt_str return_date, ''f=1''] else [])
      in google_flights_base @ ''?'' @ join ''&'' params)"

definition fallback_link :: "string \<Rightarrow> string \<Rightarrow> string \<Rightarrow> string option \<Rightarrow> string" where
  "fallback_link source destination departure_date return_date =
     (if opt_truthy return_date
      then ''https://www.google.com/travel/flights?hl=en&curr=USD&q=Flights%20from%20'' @ source
           @ ''%20to%20'' @ destination @ ''%20on%20'' @ departure_date @ ''%20return%20''
           @ opt_str return_date
      else ''https://www.google.com/travel/flights?hl=en&curr=USD&q=Flights%20from%20'' @ source
           @ ''%20to%20'' @ destination @ ''%20on%20'' @ departure_date)"

definition token_link :: "json \<Rightarrow> string" where
  "token_link token = ''https://www.google.com/travel/flights?tfs='' @ py_str token"

definition booking_link_body ::
  "json \<Rightarrow> string \<Rightarrow> string \<Rightarrow> string \<Rightarrow> string option \<Rightarrow> exn + string" where
  "booking_link_body flight_data source destination departure_date return_date =
     bind (py_get flight_data ''booking_token'' JNull) (\<lambda>bt.
       if truthy bt
       then bind (py_getitem flight_data ''booking_token'') (\<lambda>t. Inr (token_link t))
       else bind (py_get flight_data ''departure_token'' JNull) (\<lambda>dt.
         if truthy dt
         then bind (py_getitem flight_data ''departure_token'') (\<lambda>t. Inr (token_link t))
         else Inr (generic_link source destination departure_date return_date)))"

definition generate_booking_link ::
  "json \<Rightarrow> string \<Rightarrow> string \<Rightarrow> string \<Rightarrow> string option \<Rightarrow> string" where
  "generate_booking_link flight_data source destination departure_date return_date =
     (case booking_link_body flight_data source destination departure_date return_date of
        Inr link \<Rightarrow> link
      | Inl e \<Rightarrow> fallback_link source destination departure_date return_date)"

section \<open>Flight data normalizer\<close>

text \<open>One airport of a segment: \<open>segment.get(key, {})\<close> is read three times.\<close>

definition airport_info :: "env \<Rightarrow> json \<Rightarrow> string \<Rightarrow> exn + json" where
  "airport_info env segment key =
     bind (bind (py_get segment key (JObj [])) (\<lambda>a. py_get a ''name'' (JStr ''Unknown'')))
       (\<lambda>name.
     bind (bind (py_get segment key (JObj [])) (\<lambda>a. py_get a ''id'' (JStr []))) (\<lambda>ident.
     bind (bind (py_get segment key (JObj [])) (\<lambda>a. py_get a ''time'' (JStr []))) (\<lambda>time.
     Inr (JObj [(''name'', name), (''id'', ident), (''time'', format_time env time)]))))"

definition segment_info :: "env \<Rightarrow> json \<Rightarrow> exn + json" where
  "segment_info env segment =
     bind (py_get segment ''airline'' (JStr ''Unknown'')) (\<lambda>airline.
     bind (py_get segment ''flight_number'' (JStr ''N/A'')) (\<lambda>flight_number.
     bind (airport_info env segment ''departure_airport'') (\<lambda>departure_airport.
     bind (airport_info env segment ''arrival_airport'') (\<lambda>arrival_airport.
     bind (bind (py_get segment ''duration'' (JInt 0)) format_duration) (\<lambda>duration.
     bind (py_get segment ''airplane'' (JStr ''Unknown'')) (\<lambda>aircraft.
     bind (py_get segment ''travel_class'' (JStr [])) (\<lambda>travel_class.
     bind (py_get segment ''airline_logo'' (JStr [])) (\<lambda>airline_logo.
     bind (py_get segment ''extensions'' (JList [])) (\<lambda>extensions.
     bind (py_get segment ''legroom'' (JStr [])) (\<lambda>legroom.
     bind (py_get segment ''overnight'' (JBool False)) (\<lambda>overnight.
     bind (py_get segment ''often_delayed_by_over_30_min'' (JBool False)) (\<lambda>often_delayed.
     Inr (JObj
       [(''airline'', airline),
        (''flight_number'', flight_number),
        (''departure_airport'', departure_airport),
        (''arrival_airport'', arrival_airport),
        (''duration'', JStr duration),
        (''aircraft'', aircraft),
        (''travel_class'', travel_class),
        (''airline_logo'', airline_logo),
        (''extensions'', extensions),
        (''legroom'', legroom),
        (''overnight'', overnight),
        (''often_delayed'', often_delayed)])))))))))))))"

definition layover_info :: "json \<Rightarrow> exn + json" where
  "layover_info layover =
     bind (bind (py_get layover ''duration'' (JInt 0)) format_duration) (\<lambda>duration.
     bind (py_get layover ''name'' (JStr [])) (\<lambda>name.
     bind (py_get layover ''id'' (JStr [])) (\<lambda>ident.
     bind (py_get layover ''overnight'' (JBool False)) (\<lambda>overnight.
     Inr (JObj
       [(''duration'', JStr duration),
        (''name'', name),
        (''id'', ident),
        (''overnight'', overnight)])))))"

text \<open>The airline of the first segment, when the record has segments.\<close>

definition airline_of :: "json \<Rightarrow> exn + json" where
  "airline_of flight =
     bind (py_get flight ''flights'' JNull) (\<lambda>fl.
       if \<not> truthy fl then Inr (JStr ''Unknown Airline'')
       else bind (bind (py_getitem flight ''flights'') py_len) (\<lambda>n.
         if n > 0
         then bind (bind (py_getitem flight ''flights'') py_index0)
                (\<lambda>first. py_get first ''airline'' (JStr ''Unknown Airline''))
         else Inr (JStr ''Unknown Airline'')))"

definition price_formatted_of :: "json \<Rightarrow> exn + string" where
  "price_formatted_of price =
     (if truthy price then bind (format_comma_0f price) (\<lambda>s. Inr (''$'' @ s))
      else Inr ''Price not available'')"

text \<open>The body of the loop over the raw flight options: one enhanced flight, a dict.\<close>

definition enhance_flight ::
  "env \<Rightarrow> string \<Rightarrow> string \<Rightarrow> string \<Rightarrow> string option \<Rightarrow> json
     \<Rightarrow> exn + (string \<times> json) list" where
  "enhance_flight env source destination departure_date return_date flight =
     bind (airline_of flight) (\<lambda>airline_name.
     bind (py_get flight ''price'' (JInt 0)) (\<lambda>price.
     bind (price_formatted_of price) (\<lambda>price_formatted.
     bind (py_get flight ''total_duration'' (JInt 0)) (\<lambda>duration_minutes.
     bind (format_duration duration_minutes) (\<lambda>duration_formatted.
     let booking_link =
           generate_booking_link flight source destination departure_date return_date in
     bind (bind (bind (py_get flight ''flights'' (JList [])) py_iter) (mapM (segment_info env)))
       (\<lambda>flight_segments.
     bind (bind (bind (py_get flight ''layovers'' (JList [])) py_iter) (mapM layover_info))
       (\<lambda>layovers.
     let num_stops = length layovers in
     bind (py_get flight ''departure_token'' (JStr [])) (\<lambda>departure_token.
     bind (py_get flight ''booking_token'' (JStr [])) (\<lambda>booking_token.
     bind (py_get flight ''type'' (JStr [])) (\<lambda>type.
     bind (py_get flight ''airline_logo'' (JStr [])) (\<lambda>airline_logo.
     bind (py_get flight ''extensions'' (JList [])) (\<lambda>extensions.
     bind (py_get flight ''carbon_emissions'' (JObj [])) (\<lambda>carbon_emissions.
     bind (py_get flight ''departure_token'' JNull) (\<lambda>token.
     Inr
       [(''airline'', airline_name),
        (''price'', price),
        (''price_formatted'', JStr price_formatted),
        (''total_duration'', duration_minutes),
        (''duration_formatted'', JStr duration_formatted),
        (''stops'', JInt (int num_stops)),
        (''departure_token'', departure_token),
        (''booking_token'', booking_token),
        (''type'', type),
        (''airline_logo'', airline_logo),
        (''extensions'', extensions),
        (''carbon_emissions'', carbon_emissions),
        (''flights'', JList flight_segments),
        (''layovers'', JList layovers),
        (''booking_link'', JStr booking_link),
        (''booking_info'', JObj
           [(''can_book'', JBool True),
            (''booking_method'',
               JStr (if truthy token then ''google_travel'' else ''airline_website'')),
            (''price_currency'', JStr ''USD''),
            (''booking_notes'',
               JStr ''Click the booking link to proceed with ticket purchase'')])
       ]))))))))))))))"

text \<open>The sort key \<open>lambda x: x.get("price", float("inf"))\<close> on an enhanced flight.\<close>

definition price_key :: "(string \<times> json) list \<Rightarrow> sort_key" where
  "price_key x = (case map_of x ''price'' of Some p \<Rightarrow> Val p | None \<Rightarrow> PosInf)"

definition opt_json :: "string option \<Rightarrow> json" where
  "opt_json r = (case r of None \<Rightarrow> JNull | Some s \<Rightarrow> JStr s)"

definition search_params ::
  "string \<Rightarrow> string \<Rightarrow> string \<Rightarrow> string option \<Rightarrow> string \<Rightarrow> json" where
  "search_params source destination departure_date return_date currency =
     JObj [(''source'', JStr source),
           (''destination'', JStr destination),
           (''departure_date'', JStr departure_date),
           (''return_date'', opt_json return_date),
           (''currency'', JStr currency)]"

text \<open>The choice of the list: \<open>best_flights\<close>, or \<open>other_flights\<close> when that is falsy.\<close>

definition select_flights :: "json \<Rightarrow> exn + json" where
  "select_flights flight_data =
     bind (py_get flight_data ''best_flights'' (JList [])) (\<lambda>best_flights.
       if \<not> truthy best_flights then py_get flight_data ''other_flights'' (JList [])
       else Inr best_flights)"

text \<open>The dict returned at the end of the \<open>try\<close> block.\<close>

definition success_result ::
  "env \<Rightarrow> (string \<times> json) list list \<Rightarrow> json \<Rightarrow> string \<Rightarrow> string \<Rightarrow> string \<Rightarrow> string option
     \<Rightarrow> json" where
  "success_result env top_flights price_insights source destination departure_date return_date =
     JObj
       [(''success'', JBool True),
        (''flights'', JList (map JObj top_flights)),
        (''search_params'',
           search_params source destination departure_date return_date ''USD''),
        (''total_flights'', JInt (int (length top_flights))),
        (''search_timestamp'', JStr (now_isoformat env)),
        (''price_insights'', price_insights),
        (''booking_instructions'', JStr (''Click on any booking link to proceed with ticket ''
           @ ''purchase. Links will redirect to Google Travel or airline websites for ''
           @ ''booking.''))]"

text \<open>The rest of the \<open>try\<close> block, from the loop over the chosen list to the result.\<close>

definition process_selected ::
  "env \<Rightarrow> json \<Rightarrow> json \<Rightarrow> string \<Rightarrow> string \<Rightarrow> string \<Rightarrow> string option \<Rightarrow> exn + json" where
  "process_selected env best_flights flight_data source destination departure_date return_date =
     bind (bind (py_iter best_flights)
             (mapM (enhance_flight env source destination departure_date return_date)))
       (\<lambda>flights.
     bind (py_sort_by price_key flights) (\<lambda>sorted_flights.
     let top_flights = take 5 sorted_flights in
     bind (py_get flight_data ''price_insights'' (JObj [])) (\<lambda>price_insights.
     Inr (success_result env top_flights price_insights source destination departure_date
            return_date))))"

definition process_body ::
  "env \<Rightarrow> json \<Rightarrow> string \<Rightarrow> string \<Rightarrow> string \<Rightarrow> string option \<Rightarrow> exn + json" where
  "process_body env flight_data source destination departure_date return_date =
     bind (select_flights flight_data) (\<lambda>best_flights.
       process_selected env best_flights flight_data source destination departure_date
         return_date)"

definition process_failure ::
  "env \<Rightarrow> exn \<Rightarrow> string \<Rightarrow> string \<Rightarrow> string \<Rightarrow> string option \<Rightarrow> json" where
  "process_failure env e source destination departure_date return_date =
     JObj [(''success'', JBool False),
           (''error'', JStr (''Error processing flight data: '' @ str_exn e)),
           (''flights'', JList []),
           (''search_params'',
              search_params source destination departure_date return_date ''USD''),
           (''total_flights'', JInt 0),
           (''search_timestamp'', JStr (now_isoformat env))]"

definition process_flight_data ::
  "env \<Rightarrow> json \<Rightarrow> string \<Rightarrow> string \<Rightarrow> string \<Rightarrow> string option \<Rightarrow> json" where
  "process_flight_data env flight_data source destination departure_date return_date =
     (case process_body env flight_data source destination departure_date return_date of
        Inr result \<Rightarrow> result
      | Inl e \<Rightarrow> process_failure env e source destination departure_date return_date)"

section \<open>Request handlers\<close>

text \<open>
  A handler returns the list of the HTTP requests it sent, in order, and its outcome: the
  dict it returns, or the exception that leaves it. The logging context \<open>ctx\<close> is present
  or \<open>None\<close>; its methods only log.
\<close>

definition key_set :: "env \<Rightarrow> bool" where
  "key_set env = opt_truthy (serpapi_key env)"

definition serpapi_request :: "(string \<times> string) list \<Rightarrow> request" where
  "serpapi_request ps = \<lparr>url = ''https://serpapi.com/search'', params = ps, timeout = 30\<rparr>"

definition raise_for_status :: "response \<Rightarrow> exn + unit" where
  "raise_for_status r = (case status_error r of Some e \<Rightarrow> Inl e | None \<Rightarrow> Inr ())"

definition config_error :: "string \<Rightarrow> json" where
  "config_error result_field =
     JObj [(''success'', JBool False),
           (''error'', JStr (''SerpAPI key not configured. Please set SERPAPI_KEY ''
              @ ''environment variable.'')),
           (result_field, JList [])]"

subsection \<open>search_flights\<close>

definition validation_error :: json where
  "validation_error =
     JObj [(''success'', JBool False),
           (''error'', JStr (''Missing required parameters: source, destination, and ''
              @ ''departure_date are required.'')),
           (''flights'', JList [])]"

definition no_flights_found ::
  "env \<Rightarrow> string \<Rightarrow> string \<Rightarrow> string \<Rightarrow> string option \<Rightarrow> string \<Rightarrow> json" where
  "no_flights_found env source destination departure_date return_date currency =
     JObj [(''success'', JBool False),
           (''error'', JStr (''No flights found for the specified route and dates. ''
              @ ''Please try different dates or airports.'')),
           (''flights'', JList []),
           (''search_params'',
              search_params source destination departure_date return_date currency),
           (''total_flights'', JInt 0),
           (''search_timestamp'', JStr (now_isoformat env))]"

definition flights_params ::
  "env \<Rightarrow> string \<Rightarrow> string \<Rightarrow> string \<Rightarrow> string option \<Rightarrow> string
     \<Rightarrow> (string \<times> string) list" where
  "flights_params env source destination departure_date return_date currency =
     [(''engine'', ''google_flights''),
      (''departure_id'', upper env source),
      (''arrival_id'', upper env destination),
      (''outbound_date'', departure_date),
      (''currency'', currency),
      (''hl'', ''en''),
      (''api_key'', opt_str (serpapi_key env))]
     @ (if opt_truthy return_date
        then [(''return_date'', opt_str return_date), (''type'', ''1'')]
        else [(''type'', ''2'')])"

text \<open>What \<open>search_flights\<close> does with the parsed answer of the vendor.\<close>

definition handle_results ::
  "env \<Rightarrow> json \<Rightarrow> string \<Rightarrow> string \<Rightarrow> string \<Rightarrow> string option \<Rightarrow> string \<Rightarrow> exn + json" where
  "handle_results env results source destination departure_date return_date currency =
     bind (py_in ''error'' results) (\<lambda>has_error.
       if has_error
       then bind (py_getitem results ''error'') (\<lambda>err.
              Inr (JObj [(''success'', JBool False),
                         (''error'', JStr (''SerpAPI error: '' @ py_str err)),
                         (''flights'', JList [])]))
       else bind (py_get results ''best_flights'' (JList [])) (\<lambda>best_flights.
              if truthy best_flights
              then Inr (process_flight_data env results source destination departure_date
                          return_date)
              else Inr (no_flights_found env source destination departure_date return_date
                          currency)))"

definition search_flights_body ::
  "env \<Rightarrow> string \<Rightarrow> string \<Rightarrow> string \<Rightarrow> string option \<Rightarrow> string
     \<Rightarrow> request list \<times> (exn + json)" where
  "search_flights_body env source destination departure_date return_date currency =
     (if source = [] \<or> destination = [] \<or> departure_date = [] then ([], Inr validation_error)
      else if \<not> key_set env then ([], Inr (config_error ''flights''))
      else
        let req = serpapi_request
                    (flights_params env source destination departure_date return_date currency)
        in ([req],
            bind (requests_get env req) (\<lambda>response.
            bind (body response) (\<lambda>results.
            handle_results env results source destination departure_date return_date
              currency))))"

definition flights_failure ::
  "string \<Rightarrow> string \<Rightarrow> string \<Rightarrow> string \<Rightarrow> string option \<Rightarrow> string \<Rightarrow> json" where
  "flights_failure error_msg source destination departure_date return_date currency =
     JObj [(''success'', JBool False),
           (''error'', JStr error_msg),
           (''flights'', JList []),
           (''search_params'',
              search_params source destination departure_date return_date currency)]"

definition search_flights ::
  "env \<Rightarrow> bool \<Rightarrow> string \<Rightarrow> string \<Rightarrow> string \<Rightarrow> string option \<Rightarrow> string
     \<Rightarrow> request list \<times> (exn + json)" where
  "search_flights env ctx source destination departure_date return_date currency =
     (case search_flights_body env source destination departure_date return_date currency of
        (calls, Inr result) \<Rightarrow> (calls, Inr result)
      | (calls, Inl e) \<Rightarrow>
          (calls,
           Inr (flights_failure
                  ((if is_request_exception e then ''API request failed: ''
                    else ''Error searching flights: '') @ str_exn e)
                  source destination departure_date return_date currency)))"

subsection \<open>search_airports\<close>

definition airports_params :: "env \<Rightarrow> string \<Rightarrow> (string \<times> string) list" where
  "airports_params env query =
     (if length query = 3 \<and> isalpha env query
      then [(''engine'', ''google_flights''),
            (''departure_id'', upper env query),
            (''arrival_id'', []),
            (''outbound_date'', ''2025-12-01''),
            (''currency'', ''USD''),
            (''hl'', ''en''),
            (''api_key'', opt_str (serpapi_key env))]
      else [(''engine'', ''google''),
            (''q'', query @ '' airport IATA code information''),
            (''api_key'', opt_str (serpapi_key env))])"

text \<open>
  \<open>requests.get\<close>, \<open>raise_for_status\<close> and \<open>json\<close>, as \<open>search_airports\<close> and
  \<open>get_flight_prices\<close> chain them.
\<close>

definition fetch_json :: "env \<Rightarrow> request \<Rightarrow> exn + json" where
  "fetch_json env req =
     bind (requests_get env req) (\<lambda>response.
     bind (raise_for_status response) (\<lambda>u. body response))"

definition search_airports_body :: "env \<Rightarrow> string \<Rightarrow> request list \<times> (exn + json)" where
  "search_airports_body env query =
     (if \<not> key_set env then ([], Inr (config_error ''airports''))
      else
        let req = serpapi_request (airports_params env query)
        in ([req],
            bind (fetch_json env req) (\<lambda>results.
            Inr (JObj [(''success'', JBool True),
                       (''serpapi_response'', results),
                       (''query'', JStr query),
                       (''search_timestamp'', JStr (now_isoformat env))]))))"

text \<open>
  The two \<open>except\<close> clauses of \<open>search_airports\<close> and \<open>get_flight_prices\<close> call
  \<open>ctx.error\<close> without testing \<open>ctx\<close>: with \<open>ctx = None\<close> that call raises
  AttributeError, which leaves the handler.
\<close>

definition ctx_error :: "bool \<Rightarrow> exn + unit" where
  "ctx_error ctx =
     (if ctx then Inr ()
      else Inl (AttributeError (quoted ''NoneType'' @ '' object has no attribute ''
             @ quoted ''error'')))"

definition search_airports :: "env \<Rightarrow> bool \<Rightarrow> string \<Rightarrow> request list \<times> (exn + json)" where
  "search_airports env ctx query =
     (case search_airports_body env query of
        (calls, Inr result) \<Rightarrow> (calls, Inr result)
      | (calls, Inl e) \<Rightarrow>
          (calls,
           bind (ctx_error ctx) (\<lambda>u.
           Inr (JObj [(''success'', JBool False),
                      (''error'', JStr ((if is_request_exception e then ''API request failed: ''
                                         else ''Error searching airports: '') @ str_exn e)),
                      (''airports'', JList []),
                      (''query'', JStr query)]))))"

subsection \<open>get_flight_prices\<close>

definition price_params :: "string \<Rightarrow> string \<Rightarrow> string \<Rightarrow> string \<Rightarrow> string \<Rightarrow> json" where
  "price_params source destination start_date end_date currency =
     JObj [(''source'', JStr source),
           (''destination'', JStr destination),
           (''start_date'', JStr start_date),
           (''end_date'', JStr end_date),
           (''currency'', JStr currency)]"

definition get_flight_prices_body ::
  "env \<Rightarrow> string \<Rightarrow> string \<Rightarrow> string \<Rightarrow> string \<Rightarrow> string \<Rightarrow> request list \<times> (exn + json)" where
  "get_flight_prices_body env source destination start_date end_date currency =
     (if \<not> key_set env then ([], Inr (config_error ''price_trends''))
      else
        let req = serpapi_request
                    [(''engine'', ''google_flights''),
                     (''departure_id'', upper env source),
                     (''arrival_id'', upper env destination),
                     (''outbound_date'', start_date),
                     (''return_date'', end_date),
                     (''currency'', currency),
                     (''hl'', ''en''),
                     (''api_key'', opt_str (serpapi_key env))]
        in ([req],
            bind (fetch_json env req) (\<lambda>results.
            Inr (JObj [(''success'', JBool True),
                       (''serpapi_response'', results),
                       (''search_params'',
                          price_params source destination start_date end_date currency),
                       (''search_timestamp'', JStr (now_isoformat env))]))))"

definition get_flight_prices ::
  "env \<Rightarrow> bool \<Rightarrow> string \<Rightarrow> string \<Rightarrow> string \<Rightarrow> string \<Rightarrow> string
     \<Rightarrow> request list \<times> (exn + json)" where
  "get_flight_prices env ctx source destination start_date end_date currency =
     (case get_flight_prices_body env source destination start_date end_date currency of
        (calls, Inr result) \<Rightarrow> (calls, Inr result)
      | (calls, Inl e) \<Rightarrow>
          (calls,
           bind (ctx_error ctx) (\<lambda>u.
           Inr (JObj [(''success'', JBool False),
                      (''error'', JStr ((if is_request_exception e then ''API request failed: ''
                                         else ''Error getting flight prices: '') @ str_exn e)),
                      (''price_trends'', JList []),
                      (''search_params'',
                         price_params source destination start_date end_date currency)]))))"

section \<open>Reading results and durations back\<close>

text \<open>The value of a field of a response, and the fields a response has.\<close>

fun field :: "json \<Rightarrow> string \<Rightarrow> json option" where
  "field (JObj kvs) k = map_of kvs k"
| "field v k = None"

fun fields :: "json \<Rightarrow> string list" where
  "fields (JObj kvs) = map fst kvs"
| "fields v = []"

fun elements :: "json option \<Rightarrow> json list" where
  "elements (Some (JList xs)) = xs"
| "elements v = []"

text \<open>
  The prices that reach the sort: a truthy price that is not a number has already failed
  formatting. \<open>not_after a b\<close> says that \<open>b < a\<close> on the sort keys evaluates to false, so
  that \<open>a\<close> may stand before \<open>b\<close> in ascending order.
\<close>

definition price_ok :: "json \<Rightarrow> bool" where
  "price_ok p \<longleftrightarrow> as_number p \<noteq> None \<or> \<not> truthy p"

definition keyed :: "(string \<times> json) list \<Rightarrow> bool" where
  "keyed x \<longleftrightarrow> (\<exists>p. price_key x = Val p \<and> price_ok p)"

definition not_after :: "(string \<times> json) list \<Rightarrow> (string \<times> json) list \<Rightarrow> bool" where
  "not_after a b \<longleftrightarrow> key_lt (price_key b) (price_key a) = Inr False"

text \<open>
  Parsing the hours and minutes back out of a formatted duration: a decimal number and
  \<open>h\<close>, a decimal number and \<open>m\<close>, or both with a space between.
\<close>

definition is_digit :: "char \<Rightarrow> bool" where
  "is_digit c = (48 \<le> (of_char c :: nat) \<and> (of_char c :: nat) \<le> 57)"

definition parse_nat :: "string \<Rightarrow> int option" where
  "parse_nat s =
     (if s \<noteq> [] \<and> list_all is_digit s
      then Some (foldl (\<lambda>a c. 10 * a + ((of_char c :: int) - 48)) 0 s)
      else None)"

definition parse_duration :: "string \<Rightarrow> (int \<times> int) option" where
  "parse_duration s =
     (let rest = dropWhile is_digit s in
      case parse_nat (takeWhile is_digit s) of
        None \<Rightarrow> None
      | Some x \<Rightarrow>
          if rest = ''m'' then Some (0, x)
          else if rest = ''h'' then Some (x, 0)
          else if take 2 rest = ''h '' then
            (case parse_nat (takeWhile is_digit (drop 2 rest)) of
               None \<Rightarrow> None
             | Some y \<Rightarrow>
                 if dropWhile is_digit (drop 2 rest) = ''m'' then Some (x, y) else None)
          else None)"

definition minutes_of :: "string \<Rightarrow> int option" where
  "minutes_of s = map_option (\<lambda>(h, m). h * 60 + m) (parse_duration s)"

section \<open>Sample environments\<close>

text \<open>
  On a string of ASCII characters \<open>str.isalpha\<close> and \<open>str.upper\<close> know the letters
  \<open>A\<close> to \<open>Z\<close> and \<open>a\<close> to \<open>z\<close> only. The sample environments use these two
  functions, and the samples are ASCII strings.
\<close>

definition is_lower :: "char \<Rightarrow> bool" where
  "is_lower c = (97 \<le> (of_char c :: nat) \<and> (of_char c :: nat) \<le> 122)"

definition is_upper :: "char \<Rightarrow> bool" where
  "is_upper c = (65 \<le> (of_char c :: nat) \<and> (of_char c :: nat) \<le> 90)"

definition ascii_letter :: "char \<Rightarrow> bool" where
  "ascii_letter c = (is_lower c \<or> is_upper c)"

definition ascii_upper :: "string \<Rightarrow> string" where
  "ascii_upper s = map (\<lambda>c. if is_lower c then char_of ((of_char c :: nat) - 32) else c) s"

text \<open>
  A vendor that answers every request with the given JSON, and a vendor that cannot be
  reached. The clock is fixed; of the date parser only its result on one timestamp is
  used, every other string is rejected.
\<close>

definition answering :: "json \<Rightarrow> env" where
  "answering results =
     \<lparr>serpapi_key = Some ''key'',
      requests_get = (\<lambda>req. Inr \<lparr>status_error = None, body = Inr results\<rparr>),
      now_isoformat = ''2025-03-01T12:00:00'',
      fromisoformat_strftime =
        (\<lambda>s. if s = ''2025-03-06T18:20:00+00:00'' then Inr ''Mar-06, 2025 | 06:20 PM''
             else Inl (ValueError (''Invalid isoformat string: '' @ repr_str s))),
      alphabetic = ascii_letter,
      upper = ascii_upper\<rparr>"

text \<open>A vendor answer whose primary list is empty and whose alternate list has one flight.\<close>

definition only_other :: json where
  "only_other = JObj [(''best_flights'', JList []),
                      (''other_flights'', JList [JObj [(''price'', JInt 300)]])]"

text \<open>A vendor answer whose only flight option is a number, not a record.\<close>

definition bad_flight :: json where
  "bad_flight = JObj [(''best_flights'', JList [JInt 5])]"

text \<open>
  A vendor answer with one flight in each list, and one whose second flight has no price.
\<close>

definition both_lists :: json where
  "both_lists = JObj [(''best_flights'', JList [JObj [(''price'', JInt 500)]]),
                      (''other_flights'', JList [JObj [(''price'', JInt 100)]])]"

definition priced_then_unpriced :: json where
  "priced_then_unpriced =
     JObj [(''best_flights'',
            JList [JObj [(''price'', JInt 500), (''booking_token'', JStr ''A'')],
                   JObj [(''booking_token'', JStr ''B'')]])]"

definition unreachable :: env where
  "unreachable =
     (answering JNull)\<lparr>requests_get := (\<lambda>req. Inl (RequestException ''connection refused''))\<rparr>"

definition unconfigured :: env where
  "unconfigured = (answering JNull)\<lparr>serpapi_key := None\<rparr>"

section \<open>Sequencing\<close>

lemma bind_Inr [simp]: "bind (Inr v) f = f v"
  by (simp add: bind_def)

lemma bind_Inl [simp]: "bind (Inl e) f = Inl e"
  by (simp add: bind_def)

lemma bind_eq_Inr: "bind m f = Inr r \<longleftrightarrow> (\<exists>v. m = Inr v \<and> f v = Inr r)"
  by (cases m) simp_all

section \<open>Duration formatter: reading a formatted duration back\<close>

lemma of_char_digit_char: "0 \<le> d \<Longrightarrow> d < 10 \<Longrightarrow> (of_char (digit_char d) :: int) = 48 + d"
  by (simp add: digit_char_def of_char_of)

lemma of_char_digit_char_nat:
  assumes "0 \<le> d" and "d < 10"
  shows "(of_char (digit_char d) :: nat) = nat (48 + d)"
proof -
  have "int (of_char (digit_char d) :: nat) = (of_char (digit_char d) :: int)"
    by (simp add: of_nat_of_char)
  with assms show ?thesis by (simp add: of_char_digit_char)
qed

lemma is_digit_digit_char: "0 \<le> d \<Longrightarrow> d < 10 \<Longrightarrow> is_digit (digit_char d)"
  by (auto simp: is_digit_def of_char_digit_char_nat)

lemma digits_nonempty: "digits n \<noteq> []"
  by (subst digits.simps) simp

lemma digits_all_digit: "0 \<le> n \<Longrightarrow> list_all is_digit (digits n)"
proof (induction n rule: digits.induct)
  case (1 n)
  show ?case
  proof (cases "n < 10")
    case True
    with "1.prems" show ?thesis by (subst digits.simps) (simp add: is_digit_digit_char)
  next
    case False
    then have "list_all is_digit (digits (n div 10))" using "1.IH" "1.prems" by simp
    moreover have "is_digit (digit_char (n mod 10))" by (rule is_digit_digit_char) simp_all
    ultimately show ?thesis using False by (subst digits.simps) simp
  qed
qed

lemma foldl_digits:
  "0 \<le> n \<Longrightarrow> foldl (\<lambda>a c. 10 * a + ((of_char c :: int) - 48)) 0 (digits n) = n"
proof (induction n rule: digits.induct)
  case (1 n)
  show ?case
  proof (cases "n < 10")
    case True
    with "1.prems" show ?thesis by (subst digits.simps) (simp add: of_char_digit_char)
  next
    case False
    then have ih:
      "foldl (\<lambda>a c. 10 * a + ((of_char c :: int) - 48)) 0 (digits (n div 10)) = n div 10"
      using "1.IH" "1.prems" by simp
    have "(of_char (digit_char (n mod 10)) :: int) = 48 + n mod 10"
      by (rule of_char_digit_char) simp_all
    with ih False show ?thesis by (subst digits.simps) simp
  qed
qed

lemma parse_nat_digits: "0 \<le> n \<Longrightarrow> parse_nat (digits n) = Some n"
  by (simp add: parse_nat_def digits_nonempty digits_all_digit foldl_digits)

lemma takeWhile_digits:
  "0 \<le> n \<Longrightarrow> \<not> is_digit c \<Longrightarrow> takeWhile is_digit (digits n @ c # r) = digits n"
  using digits_all_digit [of n] by (simp add: takeWhile_tail list_all_iff)

lemma dropWhile_digits:
  "0 \<le> n \<Longrightarrow> \<not> is_digit c \<Longrightarrow> dropWhile is_digit (digits n @ c # r) = c # r"
  using digits_all_digit [of n] by (simp add: list_all_iff)

lemma not_digit_h: "\<not> is_digit (CHR ''h'')"
  by (simp add: is_digit_def)

lemma not_digit_m: "\<not> is_digit (CHR ''m'')"
  by (simp add: is_digit_def)

lemma parse_hours: "0 \<le> h \<Longrightarrow> parse_duration (digits h @ ''h'') = Some (h, 0)"
  by (simp add: parse_duration_def takeWhile_digits dropWhile_digits not_digit_h
      parse_nat_digits)

lemma parse_minutes: "0 \<le> m \<Longrightarrow> parse_duration (digits m @ ''m'') = Some (0, m)"
  by (simp add: parse_duration_def takeWhile_digits dropWhile_digits not_digit_m
      parse_nat_digits)

lemma parse_both:
  "0 \<le> h \<Longrightarrow> 0 \<le> m \<Longrightarrow> parse_duration (digits h @ ''h '' @ digits m @ ''m'') = Some (h, m)"
  by (simp add: parse_duration_def takeWhile_digits dropWhile_digits not_digit_h not_digit_m
      parse_nat_digits)

lemma format_duration_parses:
  assumes "1 \<le> m"
  shows "\<exists>s. format_duration (JInt m) = Inr s
             \<and> parse_duration s = Some (m div 60, m mod 60)
             \<and> minutes_of s = Some m"
proof -
  let ?h = "m div 60" and ?r = "m mod 60"
  have h0: "0 \<le> ?h" and r0: "0 \<le> ?r" using assms by simp_all
  have sum: "?h * 60 + ?r = m" by simp
  have nz: "\<not> (?h = 0 \<and> ?r = 0)" using assms sum by linarith
  consider (both) "0 < ?h" "0 < ?r" | (hours) "0 < ?h" "?r = 0" | (mins) "?h = 0" "0 < ?r"
    using h0 r0 nz by linarith
  then show ?thesis
  proof cases
    case both
    then have "format_duration (JInt m) = Inr (digits ?h @ ''h '' @ digits ?r @ ''m'')"
      using assms by (simp add: format_duration_def str_int_def Let_def)
    then show ?thesis using parse_both [OF h0 r0] by (simp add: minutes_of_def)
  next
    case hours
    then have "format_duration (JInt m) = Inr (digits ?h @ ''h'')"
      using assms by (simp add: format_duration_def str_int_def Let_def)
    moreover have "?h * 60 = m" using hours sum by linarith
    ultimately show ?thesis using parse_hours [OF h0] hours by (simp add: minutes_of_def)
  next
    case mins
    then have "format_duration (JInt m) = Inr (digits ?r @ ''m'')"
      using assms by (simp add: format_duration_def str_int_def Let_def)
    moreover have "?r = m" using mins sum by linarith
    ultimately show ?thesis using parse_minutes [OF r0] mins by (simp add: minutes_of_def)
  qed
qed

text \<open>
  Claim C6. For every integer \<open>m \<ge> 1\<close>, \<open>format_duration(m)\<close> returns a string, and
  parsing the hours and minutes back out of it gives exactly \<open>m div 60\<close> hours and
  \<open>m mod 60\<close> minutes, hence \<open>m\<close> minutes in all; \<open>format_duration(0)\<close> is the special
  case \<open>Unknown\<close>.
\<close>

theorem format_duration_roundtrip:
  "(1 \<le> m \<longrightarrow>
      (\<exists>s. format_duration (JInt m) = Inr s
          \<and> parse_duration s = Some (m div 60, m mod 60)
          \<and> minutes_of s = Some m))
   \<and> format_duration (JInt 0) = Inr ''Unknown''"
  using format_duration_parses [of m] by (simp add: format_duration_def)

theorem format_duration_roundtrip_witness:
  "(1::int) \<le> 125
   \<and> format_duration (JInt 125) = Inr ''2h 5m''
   \<and> parse_duration ''2h 5m'' = Some (2, 5)
   \<and> minutes_of ''2h 5m'' = Some 125"
proof -
  have f: "format_duration (JInt 125) = Inr ''2h 5m''" by code_simp
  from format_duration_roundtrip [of 125] f show ?thesis by simp
qed

section \<open>Request handlers: validation, configuration and routing\<close>

text \<open>
  Claim C7. If source, destination or departure date is empty, \<open>search_flights\<close> returns
  the validation error (\<open>success\<close> false, a message, \<open>flights\<close> empty) and sends no
  request; if the three are non-empty and the API key is unset (or empty), it returns the
  configuration error, again with no request sent.
\<close>

theorem search_flights_fails_fast:
  "(source = [] \<or> destination = [] \<or> departure_date = [] \<longrightarrow>
      search_flights env ctx source destination departure_date return_date currency
        = ([], Inr validation_error))
   \<and> (source \<noteq> [] \<and> destination \<noteq> [] \<and> departure_date \<noteq> []
        \<and> (serpapi_key env = None \<or> serpapi_key env = Some []) \<longrightarrow>
      search_flights env ctx source destination departure_date return_date currency
        = ([], Inr (config_error ''flights'')))
   \<and> field validation_error ''success'' = Some (JBool False)
   \<and> field validation_error ''flights'' = Some (JList [])
   \<and> field validation_error ''error'' = Some (JStr (''Missing required parameters: source, ''
        @ ''destination, and departure_date are required.''))
   \<and> field (config_error ''flights'') ''success'' = Some (JBool False)
   \<and> field (config_error ''flights'') ''flights'' = Some (JList [])
   \<and> field (config_error ''flights'') ''error'' = Some (JStr (''SerpAPI key not configured. ''
        @ ''Please set SERPAPI_KEY environment variable.''))"
  by (auto simp: search_flights_def search_flights_body_def key_set_def opt_truthy_def
      validation_error_def config_error_def)

theorem search_flights_fails_fast_witness:
  "search_flights (answering JNull) False [] ''LAX'' ''2025-03-06'' None ''USD''
     = ([], Inr validation_error)
   \<and> serpapi_key unconfigured = None
   \<and> search_flights unconfigured False ''JFK'' ''LAX'' ''2025-03-06'' None ''USD''
     = ([], Inr (config_error ''flights''))"
  using search_flights_fails_fast [of "[]" "''LAX''" "''2025-03-06''" "answering JNull" False None "''USD''"]
    search_flights_fails_fast [of "''JFK''" "''LAX''" "''2025-03-06''" unconfigured False None "''USD''"]
  by (simp add: unconfigured_def answering_def)

section \<open>search_airports: choice of the request\<close>

text \<open>
  Claim C8. With a key configured, \<open>search_airports\<close> sends exactly one request. It is the
  flight-engine probe (engine \<open>google_flights\<close>, the uppercased query as departure id) if
  and only if the query is three alphabetic characters; otherwise it is the web search for
  the query followed by \<open>airport IATA code information\<close>. Alphabetic and uppercased are
  what the standard library says, on every string.
\<close>

theorem search_airports_request:
  "(key_set env \<longrightarrow>
      fst (search_airports env ctx query) = [serpapi_request (airports_params env query)])
   \<and> (length query = 3 \<and> (\<forall>c \<in> set query. alphabetic env c) \<longrightarrow>
        airports_params env query =
          [(''engine'', ''google_flights''), (''departure_id'', upper env query),
           (''arrival_id'', []), (''outbound_date'', ''2025-12-01''),
           (''currency'', ''USD''), (''hl'', ''en''),
           (''api_key'', opt_str (serpapi_key env))])
   \<and> (\<not> (length query = 3 \<and> (\<forall>c \<in> set query. alphabetic env c)) \<longrightarrow>
        airports_params env query =
          [(''engine'', ''google''),
           (''q'', query @ '' airport IATA code information''),
           (''api_key'', opt_str (serpapi_key env))])
   \<and> (map_of (airports_params env query) ''engine'' = Some ''google_flights''
        \<longleftrightarrow> length query = 3 \<and> (\<forall>c \<in> set query. alphabetic env c))
   \<and> (isalpha env query \<longleftrightarrow> query \<noteq> [] \<and> (\<forall>c \<in> set query. alphabetic env c))"
  by (auto simp: search_airports_def search_airports_body_def airports_params_def Let_def
      isalpha_def list_all_iff split: sum.splits)

theorem search_airports_request_witness:
  "key_set (answering JNull)
   \<and> fst (search_airports (answering JNull) False ''LAX'')
       = [serpapi_request [(''engine'', ''google_flights''), (''departure_id'', ''LAX''),
           (''arrival_id'', []), (''outbound_date'', ''2025-12-01''),
           (''currency'', ''USD''), (''hl'', ''en''), (''api_key'', ''key'')]]
   \<and> fst (search_airports (answering JNull) False ''jfk'')
       = [serpapi_request [(''engine'', ''google_flights''), (''departure_id'', ''JFK''),
           (''arrival_id'', []), (''outbound_date'', ''2025-12-01''),
           (''currency'', ''USD''), (''hl'', ''en''), (''api_key'', ''key'')]]
   \<and> fst (search_airports (answering JNull) False ''Los Angeles airport'')
       = [serpapi_request [(''engine'', ''google''),
           (''q'', ''Los Angeles airport airport IATA code information''),
           (''api_key'', ''key'')]]"
proof -
  have k: "key_set (answering JNull)" by (simp add: key_set_def answering_def opt_truthy_def)
  have a: "length ''LAX'' = 3 \<and> (\<forall>c \<in> set ''LAX''. alphabetic (answering JNull) c)"
    by (simp add: answering_def ascii_letter_def is_lower_def is_upper_def)
  have a': "length ''jfk'' = 3 \<and> (\<forall>c \<in> set ''jfk''. alphabetic (answering JNull) c)"
    by (simp add: answering_def ascii_letter_def is_lower_def is_upper_def)
  have u: "upper (answering JNull) ''LAX'' = ''LAX''" by code_simp
  have u': "upper (answering JNull) ''jfk'' = ''JFK''" by code_simp
  have b: "\<not> (length ''Los Angeles airport'' = 3
              \<and> (\<forall>c \<in> set ''Los Angeles airport''. alphabetic (answering JNull) c))"
    by simp
  have s: "opt_str (serpapi_key (answering JNull)) = ''key''"
    by (simp add: answering_def opt_str_def)
  show ?thesis
    using search_airports_request [of "answering JNull" False "''LAX''"]
      search_airports_request [of "answering JNull" False "''jfk''"]
      search_airports_request [of "answering JNull" False "''Los Angeles airport''"]
      k a a' u u' b s
    by simp
qed

section \<open>search_flights: an answer without primary flights\<close>

text \<open>
  Claim C10. When the vendor's answer is a dict without an \<open>error\<close> key whose
  \<open>best_flights\<close> is missing or falsy, \<open>search_flights\<close> returns the
  \<open>No flights found\<close> response (\<open>success\<close> false, \<open>flights\<close> empty), whatever
  \<open>other_flights\<close> holds: the normalizer is not called, so its fallback to
  \<open>other_flights\<close> is never used by this handler.
\<close>

theorem search_flights_no_best_flights:
  assumes "source \<noteq> []" and "destination \<noteq> []" and "departure_date \<noteq> []"
    and "key_set env"
    and "requests_get env (serpapi_request
           (flights_params env source destination departure_date return_date currency))
         = Inr response"
    and "body response = Inr (JObj kvs)"
    and "map_of kvs ''error'' = None"
    and "\<forall>v. map_of kvs ''best_flights'' = Some v \<longrightarrow> \<not> truthy v"
  shows "search_flights env ctx source destination departure_date return_date currency
           = ([serpapi_request
                 (flights_params env source destination departure_date return_date currency)],
              Inr (no_flights_found env source destination departure_date return_date currency))
         \<and> field (no_flights_found env source destination departure_date return_date currency)
              ''success'' = Some (JBool False)
         \<and> field (no_flights_found env source destination departure_date return_date currency)
              ''flights'' = Some (JList [])
         \<and> field (no_flights_found env source destination departure_date return_date currency)
              ''error'' = Some (JStr (''No flights found for the specified route and dates. ''
                @ ''Please try different dates or airports.''))"
proof -
  have "\<not> truthy (case map_of kvs ''best_flights'' of Some v \<Rightarrow> v | None \<Rightarrow> JList [])"
    using assms(8) by (simp split: option.splits)
  moreover have "''error'' \<notin> fst ` set kvs"
    using assms(7) by (simp add: map_of_eq_None_iff)
  ultimately have "handle_results env (JObj kvs) source destination departure_date return_date
      currency
      = Inr (no_flights_found env source destination departure_date return_date currency)"
    by (simp add: handle_results_def)
  then show ?thesis
    using assms(1-6)
    by (simp add: search_flights_def search_flights_body_def Let_def no_flights_found_def)
qed

theorem search_flights_no_best_flights_witness:
  "search_flights (answering only_other) False ''JFK'' ''LAX'' ''2025-03-06'' None ''USD''
     = ([serpapi_request
           (flights_params (answering only_other) ''JFK'' ''LAX'' ''2025-03-06'' None ''USD'')],
        Inr (no_flights_found (answering only_other) ''JFK'' ''LAX'' ''2025-03-06'' None ''USD''))
   \<and> field (process_flight_data (answering only_other) only_other ''JFK'' ''LAX''
              ''2025-03-06'' None) ''total_flights'' = Some (JInt 1)"
proof -
  have p: "field (process_flight_data (answering only_other) only_other ''JFK'' ''LAX''
              ''2025-03-06'' None) ''total_flights'' = Some (JInt 1)"
    by code_simp
  have k: "key_set (answering only_other)"
    by (simp add: key_set_def answering_def opt_truthy_def)
  have r: "requests_get (answering only_other) (serpapi_request
           (flights_params (answering only_other) ''JFK'' ''LAX'' ''2025-03-06'' None ''USD''))
         = Inr \<lparr>status_error = None, body = Inr only_other\<rparr>"
    by (simp add: answering_def)
  show ?thesis
    using search_flights_no_best_flights [of "''JFK''" "''LAX''" "''2025-03-06''"
        "answering only_other" None "''USD''" "\<lparr>status_error = None, body = Inr only_other\<rparr>"
        "[(''best_flights'', JList []), (''other_flights'', JList [JObj [(''price'', JInt 300)]])]"
        False] k r p
    by (simp add: only_other_def)
qed

section \<open>Booking link generator: precedence of the methods\<close>

lemma generic_link_eq:
  "generic_link s d dd rd =
     ''https://www.google.com/travel/flights?hl=en&curr=USD&f=0''
     @ ''&tfs=CAEQAxoaagwIAhIIL20vMDJqNnQSCjIwMjUtMDMtMTUaGhIKMjAyNS0wMy0yMBAC''
     @ ''&q=Flights%20from%20'' @ s @ ''%20to%20'' @ d @ ''&d1='' @ dd
     @ (if opt_truthy rd then ''&d2='' @ opt_str rd @ ''&f=1'' else [])"
  by (simp add: generic_link_def google_flights_base_def)

lemma generic_link_nonempty: "generic_link s d dd rd \<noteq> []"
  by (simp add: generic_link_eq)

lemma fallback_link_nonempty: "fallback_link s d dd rd \<noteq> []"
  by (simp add: fallback_link_def)

lemma token_link_nonempty: "token_link t \<noteq> []"
  by (simp add: token_link_def)

lemma booking_link_body_dict:
  "booking_link_body (JObj kvs) s d dd rd =
     Inr (case map_of kvs ''booking_token'' of
            Some bt \<Rightarrow> if truthy bt then token_link bt
                        else (case map_of kvs ''departure_token'' of
                                Some dt \<Rightarrow> if truthy dt then token_link dt
                                           else generic_link s d dd rd
                              | None \<Rightarrow> generic_link s d dd rd)
          | None \<Rightarrow> (case map_of kvs ''departure_token'' of
                        Some dt \<Rightarrow> if truthy dt then token_link dt
                                   else generic_link s d dd rd
                      | None \<Rightarrow> generic_link s d dd rd))"
  by (simp add: booking_link_body_def split: option.splits)

lemma booking_link_body_other:
  "\<forall>kvs. fd \<noteq> JObj kvs \<Longrightarrow> \<exists>e. booking_link_body fd s d dd rd = Inl e"
  by (cases fd) (simp_all add: booking_link_body_def)

lemma generate_booking_link_nonempty: "generate_booking_link fd s d dd rd \<noteq> []"
proof (cases fd)
  case (JObj kvs)
  then show ?thesis
    by (simp add: generate_booking_link_def booking_link_body_dict generic_link_nonempty
        token_link_nonempty split: option.splits)
qed (simp_all add: generate_booking_link_def booking_link_body_def fallback_link_nonempty)

text \<open>
  Claim C4. \<open>generate_booking_link\<close> always returns a non-empty string. A record with a
  booking token (present and truthy) gets the Google Travel link of that token; otherwise
  a record with a departure token gets the link of that token; otherwise the link is a
  generic flight search built from source, destination and dates: the one with query
  parameters for a dict, the plain one of the \<open>except\<close> branch for anything else.
\<close>

theorem generate_booking_link_precedence:
  "generate_booking_link fd s d dd rd \<noteq> []
   \<and> (field fd ''booking_token'' = Some bt \<and> truthy bt \<longrightarrow>
        generate_booking_link fd s d dd rd
          = ''https://www.google.com/travel/flights?tfs='' @ py_str bt)
   \<and> ((\<forall>t. field fd ''booking_token'' = Some t \<longrightarrow> \<not> truthy t)
        \<and> field fd ''departure_token'' = Some dt \<and> truthy dt \<longrightarrow>
        generate_booking_link fd s d dd rd
          = ''https://www.google.com/travel/flights?tfs='' @ py_str dt)
   \<and> ((\<forall>t. field fd ''booking_token'' = Some t \<longrightarrow> \<not> truthy t)
        \<and> (\<forall>t. field fd ''departure_token'' = Some t \<longrightarrow> \<not> truthy t) \<longrightarrow>
        generate_booking_link fd s d dd rd
          = (if \<exists>kvs. fd = JObj kvs then generic_link s d dd rd else fallback_link s d dd rd))
   \<and> generic_link s d dd rd =
        ''https://www.google.com/travel/flights?hl=en&curr=USD&f=0''
        @ ''&tfs=CAEQAxoaagwIAhIIL20vMDJqNnQSCjIwMjUtMDMtMTUaGhIKMjAyNS0wMy0yMBAC''
        @ ''&q=Flights%20from%20'' @ s @ ''%20to%20'' @ d @ ''&d1='' @ dd
        @ (if opt_truthy rd then ''&d2='' @ opt_str rd @ ''&f=1'' else [])
   \<and> fallback_link s d dd rd =
        ''https://www.google.com/travel/flights?hl=en&curr=USD&q=Flights%20from%20'' @ s
        @ ''%20to%20'' @ d @ ''%20on%20'' @ dd
        @ (if opt_truthy rd then ''%20return%20'' @ opt_str rd else [])"
proof -
  have a: "generate_booking_link fd s d dd rd \<noteq> []"
    by (rule generate_booking_link_nonempty)
  have b: "field fd ''booking_token'' = Some bt \<and> truthy bt \<longrightarrow>
        generate_booking_link fd s d dd rd
          = ''https://www.google.com/travel/flights?tfs='' @ py_str bt"
    by (cases fd) (simp_all add: generate_booking_link_def booking_link_body_dict token_link_def)
  have c: "(\<forall>t. field fd ''booking_token'' = Some t \<longrightarrow> \<not> truthy t)
        \<and> field fd ''departure_token'' = Some dt \<and> truthy dt \<longrightarrow>
        generate_booking_link fd s d dd rd
          = ''https://www.google.com/travel/flights?tfs='' @ py_str dt"
    by (cases fd)
      (simp_all add: generate_booking_link_def booking_link_body_dict token_link_def
        split: option.splits)
  have d: "(\<forall>t. field fd ''booking_token'' = Some t \<longrightarrow> \<not> truthy t)
        \<and> (\<forall>t. field fd ''departure_token'' = Some t \<longrightarrow> \<not> truthy t) \<longrightarrow>
        generate_booking_link fd s d dd rd
          = (if \<exists>kvs. fd = JObj kvs then generic_link s d dd rd else fallback_link s d dd rd)"
    by (cases fd)
      (simp_all add: generate_booking_link_def booking_link_body_dict booking_link_body_def
        split: option.splits)
  have e: "fallback_link s d dd rd =
        ''https://www.google.com/travel/flights?hl=en&curr=USD&q=Flights%20from%20'' @ s
        @ ''%20to%20'' @ d @ ''%20on%20'' @ dd
        @ (if opt_truthy rd then ''%20return%20'' @ opt_str rd else [])"
    by (simp add: fallback_link_def)
  from a b c d e generic_link_eq [of s d dd rd] show ?thesis by blast
qed

theorem generate_booking_link_precedence_witness:
  "generate_booking_link (JObj [(''booking_token'', JStr ''TOK1''), (''departure_token'', JStr ''DEP'')])
       ''JFK'' ''LAX'' ''2025-03-06'' None
     = ''https://www.google.com/travel/flights?tfs=TOK1''
   \<and> generate_booking_link (JObj [(''booking_token'', JStr []), (''departure_token'', JStr ''DEP'')])
       ''JFK'' ''LAX'' ''2025-03-06'' None
     = ''https://www.google.com/travel/flights?tfs=DEP''
   \<and> generate_booking_link (JObj []) ''JFK'' ''LAX'' ''2025-03-06'' (Some ''2025-03-09'')
     = ''https://www.google.com/travel/flights?hl=en&curr=USD&f=0''
        @ ''&tfs=CAEQAxoaagwIAhIIL20vMDJqNnQSCjIwMjUtMDMtMTUaGhIKMjAyNS0wMy0yMBAC''
        @ ''&q=Flights%20from%20JFK%20to%20LAX&d1=2025-03-06&d2=2025-03-09&f=1''"
  using generate_booking_link_precedence
          [of "JObj [(''booking_token'', JStr ''TOK1''), (''departure_token'', JStr ''DEP'')]"
              "''JFK''" "''LAX''" "''2025-03-06''" None "JStr ''TOK1''" "JStr ''DEP''"]
        generate_booking_link_precedence
          [of "JObj [(''booking_token'', JStr []), (''departure_token'', JStr ''DEP'')]"
              "''JFK''" "''LAX''" "''2025-03-06''" None "JStr []" "JStr ''DEP''"]
        generate_booking_link_precedence
          [of "JObj []" "''JFK''" "''LAX''" "''2025-03-06''" "Some ''2025-03-09''" JNull JNull]
  by (simp add: opt_truthy_def opt_str_def)

section \<open>Time formatter\<close>

lemma is_substring_char: "is_substring [c] s \<longleftrightarrow> c \<in> set s"
  by (induction s) auto

lemma replace_char_trailing:
  "replace_char old new (t @ [old]) = replace_char old new t @ new"
  by (simp add: replace_char_def)

text \<open>
  Claim C5. \<open>format_time\<close> has a result on every argument. A missing or empty string
  gives \<open>Unknown\<close>; a string with \<open>|\<close> comes back unchanged; a string with \<open>T\<close> (and
  no \<open>|\<close>) is parsed after every \<open>Z\<close>, a trailing one included, is replaced by
  \<open>+00:00\<close>, and comes back reformatted, or unchanged when parsing raises; any other
  string comes back unchanged. On any JSON value the result is \<open>Unknown\<close>, the argument
  itself or the reformatted string.
\<close>

theorem format_time_total:
  "format_time env JNull = JStr ''Unknown''
   \<and> format_time env (JStr []) = JStr ''Unknown''
   \<and> (CHR ''|'' \<in> set s \<longrightarrow> format_time env (JStr s) = JStr s)
   \<and> (CHR ''|'' \<notin> set s \<and> CHR ''T'' \<in> set s \<longrightarrow>
        format_time env (JStr s) =
          (case fromisoformat_strftime env (replace_char (CHR ''Z'') ''+00:00'' s) of
             Inr formatted \<Rightarrow> JStr formatted
           | Inl e \<Rightarrow> JStr s))
   \<and> (s \<noteq> [] \<and> CHR ''|'' \<notin> set s \<and> CHR ''T'' \<notin> set s \<longrightarrow> format_time env (JStr s) = JStr s)
   \<and> replace_char (CHR ''Z'') ''+00:00'' (t @ ''Z'')
        = replace_char (CHR ''Z'') ''+00:00'' t @ ''+00:00''
   \<and> (format_time env v = JStr ''Unknown'' \<or> format_time env v = v
        \<or> (\<exists>u formatted. v = JStr u
              \<and> fromisoformat_strftime env (replace_char (CHR ''Z'') ''+00:00'' u) = Inr formatted
              \<and> format_time env v = JStr formatted))"
proof -
  have g: "format_time env v = JStr ''Unknown'' \<or> format_time env v = v
        \<or> (\<exists>u formatted. v = JStr u
              \<and> fromisoformat_strftime env (replace_char (CHR ''Z'') ''+00:00'' u) = Inr formatted
              \<and> format_time env v = JStr formatted)"
    by (cases v)
      (auto simp: format_time_def format_time_body_def bind_def split: sum.splits if_splits)
  have "CHR ''|'' \<notin> set s \<and> CHR ''T'' \<in> set s \<longrightarrow>
        format_time env (JStr s) =
          (case fromisoformat_strftime env (replace_char (CHR ''Z'') ''+00:00'' s) of
             Inr formatted \<Rightarrow> JStr formatted
           | Inl e \<Rightarrow> JStr s)"
    by (auto simp: format_time_def format_time_body_def is_substring_char split: sum.splits)
  with g show ?thesis
    by (auto simp: format_time_def format_time_body_def is_substring_char replace_char_def)
qed

theorem format_time_total_witness:
  "format_time (answering JNull) (JStr ''2025-03-06T18:20:00Z'') = JStr ''Mar-06, 2025 | 06:20 PM''
   \<and> format_time (answering JNull) (JStr ''Tuesday'') = JStr ''Tuesday''
   \<and> format_time (answering JNull) (JStr ''Mar-06, 2025 | 06:20 PM'')
       = JStr ''Mar-06, 2025 | 06:20 PM''
   \<and> format_time (answering JNull) (JStr ''2025-03-06 18:20'') = JStr ''2025-03-06 18:20''"
proof -
  have p: "fromisoformat_strftime (answering JNull)
             (replace_char (CHR ''Z'') ''+00:00'' ''2025-03-06T18:20:00Z'')
           = Inr ''Mar-06, 2025 | 06:20 PM''"
    by (simp add: answering_def replace_char_def)
  have q: "fromisoformat_strftime (answering JNull)
             (replace_char (CHR ''Z'') ''+00:00'' ''Tuesday'')
           = Inl (ValueError (''Invalid isoformat string: '' @ repr_str ''Tuesday''))"
    by (simp add: answering_def replace_char_def)
  show ?thesis
    using format_time_total [of "answering JNull" "''2025-03-06T18:20:00Z''" "[]" JNull]
      format_time_total [of "answering JNull" "''Tuesday''" "[]" JNull]
      format_time_total [of "answering JNull" "''Mar-06, 2025 | 06:20 PM''" "[]" JNull]
      format_time_total [of "answering JNull" "''2025-03-06 18:20''" "[]" JNull]
      p q
    by simp
qed

section \<open>Flight data normalizer: results and failures\<close>

lemma process_selected_Inr:
  assumes "process_selected env best fd s d dd rd = Inr r"
  shows "\<exists>raw flights sorted_flights price_insights.
           py_iter best = Inr raw
           \<and> mapM (enhance_flight env s d dd rd) raw = Inr flights
           \<and> py_sort_by price_key flights = Inr sorted_flights
           \<and> r = success_result env (take 5 sorted_flights) price_insights s d dd rd"
  using assms
  by (auto simp: process_selected_def bind_eq_Inr Let_def success_result_def)

lemma process_body_Inr:
  assumes "process_body env fd s d dd rd = Inr r"
  shows "\<exists>best raw flights sorted_flights price_insights.
           select_flights fd = Inr best
           \<and> py_iter best = Inr raw
           \<and> mapM (enhance_flight env s d dd rd) raw = Inr flights
           \<and> py_sort_by price_key flights = Inr sorted_flights
           \<and> r = success_result env (take 5 sorted_flights) price_insights s d dd rd"
proof -
  from assms obtain best where b: "select_flights fd = Inr best"
    and p: "process_selected env best fd s d dd rd = Inr r"
    by (auto simp: process_body_def bind_eq_Inr)
  from process_selected_Inr [OF p] b show ?thesis by blast
qed

lemma process_flight_data_shape:
  "(\<exists>top price_insights. length top \<le> 5
       \<and> process_flight_data env fd s d dd rd = success_result env top price_insights s d dd rd)
   \<or> (\<exists>e. process_flight_data env fd s d dd rd = process_failure env e s d dd rd)"
proof (cases "process_body env fd s d dd rd")
  case (Inl e)
  then show ?thesis by (auto simp: process_flight_data_def)
next
  case (Inr r)
  from process_body_Inr [OF this] obtain sorted_flights price_insights
    where "r = success_result env (take 5 sorted_flights) price_insights s d dd rd" by blast
  moreover have "length (take 5 sorted_flights) \<le> 5" by simp
  ultimately show ?thesis using Inr unfolding process_flight_data_def by (metis sum.simps(6))
qed


text \<open>
  Claim C3. \<open>process_flight_data\<close> returns a dict on every input. If a step of its
  \<open>try\<close> block raises an exception \<open>e\<close>, the dict has \<open>success\<close> false, the message
  \<open>Error processing flight data:\<close> followed by \<open>str(e)\<close>, an empty \<open>flights\<close> list and
  the query parameters echoed with currency \<open>USD\<close>. A vendor response that is not a dict
  is one input on which a step raises.
\<close>

theorem process_flight_data_never_raises:
  "(\<exists>kvs. process_flight_data env fd s d dd rd = JObj kvs)
   \<and> (field (process_flight_data env fd s d dd rd) ''success'' = Some (JBool True)
        \<or> field (process_flight_data env fd s d dd rd) ''success'' = Some (JBool False))
   \<and> (process_body env fd s d dd rd = Inl e \<longrightarrow>
        field (process_flight_data env fd s d dd rd) ''success'' = Some (JBool False)
        \<and> field (process_flight_data env fd s d dd rd) ''error''
            = Some (JStr (''Error processing flight data: '' @ str_exn e))
        \<and> field (process_flight_data env fd s d dd rd) ''flights'' = Some (JList [])
        \<and> field (process_flight_data env fd s d dd rd) ''total_flights'' = Some (JInt 0)
        \<and> field (process_flight_data env fd s d dd rd) ''search_params''
            = Some (JObj [(''source'', JStr s), (''destination'', JStr d),
                          (''departure_date'', JStr dd), (''return_date'', opt_json rd),
                          (''currency'', JStr ''USD'')]))
   \<and> ((\<forall>kvs. fd \<noteq> JObj kvs) \<longrightarrow> (\<exists>e. process_body env fd s d dd rd = Inl e))"
proof (cases "process_body env fd s d dd rd")
  case (Inl e')
  then show ?thesis
    by (cases fd)
      (auto simp: process_flight_data_def process_failure_def search_params_def process_body_def
        select_flights_def)
next
  case (Inr r)
  from process_body_Inr [OF this] obtain top price_insights
    where "r = success_result env top price_insights s d dd rd" by blast
  with Inr show ?thesis
    by (cases fd)
      (auto simp: process_flight_data_def success_result_def process_body_def
        select_flights_def)
qed

theorem process_flight_data_never_raises_witness:
  "process_body (answering JNull) bad_flight ''JFK'' ''LAX'' ''2025-03-06'' None
     = Inl (AttributeError (quoted ''int'' @ '' object has no attribute '' @ quoted ''get''))
   \<and> process_flight_data (answering JNull) bad_flight ''JFK'' ''LAX'' ''2025-03-06'' None
     = JObj [(''success'', JBool False),
             (''error'', JStr (''Error processing flight data: '' @ quoted ''int''
                @ '' object has no attribute '' @ quoted ''get'')),
             (''flights'', JList []),
             (''search_params'',
                JObj [(''source'', JStr ''JFK''), (''destination'', JStr ''LAX''),
                      (''departure_date'', JStr ''2025-03-06''), (''return_date'', JNull),
                      (''currency'', JStr ''USD'')]),
             (''total_flights'', JInt 0),
             (''search_timestamp'', JStr ''2025-03-01T12:00:00'')]"
proof -
  have b: "process_body (answering JNull) bad_flight ''JFK'' ''LAX'' ''2025-03-06'' None
     = Inl (AttributeError (quoted ''int'' @ '' object has no attribute '' @ quoted ''get''))"
    by code_simp
  have p: "process_flight_data (answering JNull) bad_flight ''JFK'' ''LAX'' ''2025-03-06'' None
     = JObj [(''success'', JBool False),
             (''error'', JStr (''Error processing flight data: '' @ quoted ''int''
                @ '' object has no attribute '' @ quoted ''get'')),
             (''flights'', JList []),
             (''search_params'',
                JObj [(''source'', JStr ''JFK''), (''destination'', JStr ''LAX''),
                      (''departure_date'', JStr ''2025-03-06''), (''return_date'', JNull),
                      (''currency'', JStr ''USD'')]),
             (''total_flights'', JInt 0),
             (''search_timestamp'', JStr ''2025-03-01T12:00:00'')]"
    by code_simp
  from process_flight_data_never_raises
         [of "answering JNull" bad_flight "''JFK''" "''LAX''" "''2025-03-06''" None
             "AttributeError (quoted ''int'' @ '' object has no attribute '' @ quoted ''get'')"]
       b p
  show ?thesis by simp
qed

text \<open>
  Claim C9. \<open>process_flight_data\<close> runs the rest of its \<open>try\<close> block on
  \<open>best_flights\<close> when that is present and truthy, and on \<open>other_flights\<close> when
  \<open>best_flights\<close> is missing or falsy. When both are missing or empty lists the result has
  \<open>success\<close> true, no flights, \<open>total_flights\<close> 0 and no \<open>error\<close>.
\<close>

theorem process_flight_data_selects:
  "(field fd ''best_flights'' = Some best \<and> truthy best \<longrightarrow>
      process_flight_data env fd s d dd rd
        = (case process_selected env best fd s d dd rd of
             Inr result \<Rightarrow> result
           | Inl e \<Rightarrow> process_failure env e s d dd rd))
   \<and> ((\<forall>b. field fd ''best_flights'' = Some b \<longrightarrow> \<not> truthy b)
        \<and> field fd ''other_flights'' = Some other \<longrightarrow>
      process_flight_data env fd s d dd rd
        = (case process_selected env other fd s d dd rd of
             Inr result \<Rightarrow> result
           | Inl e \<Rightarrow> process_failure env e s d dd rd))
   \<and> (fd = JObj kvs
        \<and> (field fd ''best_flights'' = None \<or> field fd ''best_flights'' = Some (JList []))
        \<and> (field fd ''other_flights'' = None \<or> field fd ''other_flights'' = Some (JList []))
        \<longrightarrow>
      field (process_flight_data env fd s d dd rd) ''success'' = Some (JBool True)
      \<and> field (process_flight_data env fd s d dd rd) ''flights'' = Some (JList [])
      \<and> field (process_flight_data env fd s d dd rd) ''total_flights'' = Some (JInt 0)
      \<and> field (process_flight_data env fd s d dd rd) ''error'' = None)"
proof -
  have a: "field fd ''best_flights'' = Some best \<and> truthy best \<longrightarrow>
      process_flight_data env fd s d dd rd
        = (case process_selected env best fd s d dd rd of
             Inr result \<Rightarrow> result
           | Inl e \<Rightarrow> process_failure env e s d dd rd)"
    by (cases fd) (simp_all add: process_flight_data_def process_body_def select_flights_def)
  have b: "(\<forall>b. field fd ''best_flights'' = Some b \<longrightarrow> \<not> truthy b)
        \<and> field fd ''other_flights'' = Some other \<longrightarrow>
      process_flight_data env fd s d dd rd
        = (case process_selected env other fd s d dd rd of
             Inr result \<Rightarrow> result
           | Inl e \<Rightarrow> process_failure env e s d dd rd)"
    by (cases fd)
      (auto simp: process_flight_data_def process_body_def select_flights_def
        split: option.splits)
  have c: "fd = JObj kvs
        \<and> (field fd ''best_flights'' = None \<or> field fd ''best_flights'' = Some (JList []))
        \<and> (field fd ''other_flights'' = None \<or> field fd ''other_flights'' = Some (JList []))
        \<longrightarrow>
      field (process_flight_data env fd s d dd rd) ''success'' = Some (JBool True)
      \<and> field (process_flight_data env fd s d dd rd) ''flights'' = Some (JList [])
      \<and> field (process_flight_data env fd s d dd rd) ''total_flights'' = Some (JInt 0)
      \<and> field (process_flight_data env fd s d dd rd) ''error'' = None"
    by (auto simp: process_flight_data_def process_body_def select_flights_def
        process_selected_def success_result_def Let_def)
  from a b c show ?thesis by blast
qed

theorem process_flight_data_selects_witness:
  "process_flight_data (answering JNull) both_lists ''JFK'' ''LAX'' ''2025-03-06'' None
     = (case process_selected (answering JNull) (JList [JObj [(''price'', JInt 500)]]) both_lists
               ''JFK'' ''LAX'' ''2025-03-06'' None of
          Inr result \<Rightarrow> result
        | Inl e \<Rightarrow> process_failure (answering JNull) e ''JFK'' ''LAX'' ''2025-03-06'' None)
   \<and> process_flight_data (answering JNull) only_other ''JFK'' ''LAX'' ''2025-03-06'' None
     = (case process_selected (answering JNull) (JList [JObj [(''price'', JInt 300)]]) only_other
               ''JFK'' ''LAX'' ''2025-03-06'' None of
          Inr result \<Rightarrow> result
        | Inl e \<Rightarrow> process_failure (answering JNull) e ''JFK'' ''LAX'' ''2025-03-06'' None)
   \<and> map (\<lambda>f. field f ''price'')
        (elements (field (process_flight_data (answering JNull) both_lists ''JFK'' ''LAX''
                            ''2025-03-06'' None) ''flights'')) = [Some (JInt 500)]
   \<and> map (\<lambda>f. field f ''price'')
        (elements (field (process_flight_data (answering JNull) only_other ''JFK'' ''LAX''
                            ''2025-03-06'' None) ''flights'')) = [Some (JInt 300)]
   \<and> field (process_flight_data (answering JNull) (JObj []) ''JFK'' ''LAX'' ''2025-03-06'' None)
        ''success'' = Some (JBool True)
   \<and> field (process_flight_data (answering JNull) (JObj []) ''JFK'' ''LAX'' ''2025-03-06'' None)
        ''flights'' = Some (JList [])
   \<and> field (process_flight_data (answering JNull) (JObj []) ''JFK'' ''LAX'' ''2025-03-06'' None)
        ''total_flights'' = Some (JInt 0)"
proof -
  have a: "map (\<lambda>f. field f ''price'')
        (elements (field (process_flight_data (answering JNull) both_lists ''JFK'' ''LAX''
                            ''2025-03-06'' None) ''flights'')) = [Some (JInt 500)]"
    by code_simp
  have b: "map (\<lambda>f. field f ''price'')
        (elements (field (process_flight_data (answering JNull) only_other ''JFK'' ''LAX''
                            ''2025-03-06'' None) ''flights'')) = [Some (JInt 300)]"
    by code_simp
  show ?thesis
    using process_flight_data_selects
            [of both_lists "JList [JObj [(''price'', JInt 500)]]" "answering JNull"
                "''JFK''" "''LAX''" "''2025-03-06''" None JNull "[]"]
          process_flight_data_selects
            [of only_other JNull "answering JNull"
                "''JFK''" "''LAX''" "''2025-03-06''" None "JList [JObj [(''price'', JInt 300)]]" "[]"]
          process_flight_data_selects
            [of "JObj []" JNull "answering JNull"
                "''JFK''" "''LAX''" "''2025-03-06''" None JNull "[]"]
          a b
    by (simp add: both_lists_def only_other_def)
qed

section \<open>Flight data normalizer: order of the flights\<close>

text \<open>
  A successful result has at most five flights, in ascending order of the price stored
  in them: no flight compares less than one before it.
\<close>

lemma format_comma_0f_number: "format_comma_0f p = Inr s \<Longrightarrow> as_number p \<noteq> None"
  by (cases p) (auto split: option.splits)

lemma price_formatted_ok: "price_formatted_of p = Inr s \<Longrightarrow> price_ok p"
  by (auto simp: price_formatted_of_def price_ok_def bind_eq_Inr
      dest: format_comma_0f_number split: if_splits)

lemma enhance_flight_price:
  assumes "enhance_flight env s d dd rd f = Inr x"
  shows "\<exists>p. price_key x = Val p \<and> price_ok p"
proof -
  from assms obtain p pf where pf: "price_formatted_of p = Inr pf"
    and x: "map_of x ''price'' = Some p"
    unfolding enhance_flight_def bind_eq_Inr Let_def by fastforce
  from price_formatted_ok [OF pf] x show ?thesis by (simp add: price_key_def)
qed

lemma key_lt_False_iff:
  assumes "price_ok p" and "price_ok q"
  shows "py_lt p q = Inr False \<longleftrightarrow>
           (\<exists>x y. as_number p = Some x \<and> as_number q = Some y \<and> \<not> x < y)
           \<or> (p = JStr [] \<and> q = JStr []) \<or> (p = JList [] \<and> q = JList [])"
  using assms by (cases p; cases q) (auto simp: price_ok_def)

lemma key_lt_True_iff:
  assumes "price_ok p" and "price_ok q"
  shows "py_lt p q = Inr True \<longleftrightarrow>
           (\<exists>x y. as_number p = Some x \<and> as_number q = Some y \<and> x < y)"
  using assms by (cases p; cases q) (auto simp: price_ok_def)


lemma not_after_trans:
  assumes "price_ok p" "price_ok q" "price_ok r"
    and "key_lt (Val q) (Val p) = Inr False" and "key_lt (Val r) (Val q) = Inr False"
  shows "key_lt (Val r) (Val p) = Inr False"
  using assms by (auto simp: key_lt_False_iff)

lemma lt_True_flip:
  assumes "price_ok p" "price_ok q" and "key_lt (Val p) (Val q) = Inr True"
  shows "key_lt (Val q) (Val p) = Inr False"
  using assms by (auto simp: key_lt_False_iff key_lt_True_iff)

lemma mapM_Inr: "mapM f xs = Inr ys \<Longrightarrow> \<forall>y \<in> set ys. \<exists>x \<in> set xs. f x = Inr y"
proof (induction xs arbitrary: ys)
  case Nil
  then show ?case by simp
next
  case (Cons x xs)
  from Cons.prems obtain v vs where v: "f x = Inr v" and vs: "mapM f xs = Inr vs"
    and ys: "ys = v # vs"
    by (auto simp: bind_eq_Inr)
  from Cons.IH [OF vs] v ys show ?case by auto
qed

lemma set_insort_by: "insort_by f x ys = Inr zs \<Longrightarrow> set zs = insert x (set ys)"
  by (induction ys arbitrary: zs) (auto simp: bind_eq_Inr split: if_splits)

lemma not_after_keyed_trans:
  "keyed a \<Longrightarrow> keyed b \<Longrightarrow> keyed c \<Longrightarrow> not_after a b \<Longrightarrow> not_after b c \<Longrightarrow> not_after a c"
  unfolding keyed_def not_after_def by (metis not_after_trans)

lemma not_after_flip:
  "keyed a \<Longrightarrow> keyed b \<Longrightarrow> key_lt (price_key a) (price_key b) = Inr True \<Longrightarrow> not_after a b"
  unfolding keyed_def not_after_def by (metis lt_True_flip)

lemma sorted_insort_by:
  assumes "insort_by price_key x ys = Inr zs" and "sorted_wrt not_after ys"
    and "keyed x" and "\<forall>y \<in> set ys. keyed y"
  shows "sorted_wrt not_after zs"
  using assms
proof (induction ys arbitrary: zs)
  case Nil
  then show ?case by auto
next
  case (Cons y ys)
  from Cons.prems(1) obtain lt where lt: "key_lt (price_key y) (price_key x) = Inr lt"
    and rest: "(if lt then bind (insort_by price_key x ys) (\<lambda>r. Inr (y # r))
                else Inr (x # y # ys)) = Inr zs"
    by (auto simp: bind_eq_Inr)
  show ?case
  proof (cases lt)
    case True
    with rest obtain r where r: "insort_by price_key x ys = Inr r" and zs: "zs = y # r"
      by (auto simp: bind_eq_Inr)
    have "sorted_wrt not_after r"
      using Cons.IH [OF r] Cons.prems by simp
    moreover have "not_after y x"
      using True lt Cons.prems by (simp add: not_after_flip)
    moreover have "set r = insert x (set ys)" using r by (rule set_insort_by)
    ultimately show ?thesis using zs Cons.prems(2) by auto
  next
    case False
    with rest have zs: "zs = x # y # ys" by simp
    have xy: "not_after x y" using False lt by (simp add: not_after_def)
    have "\<forall>z \<in> set ys. not_after x z"
    proof
      fix z assume z: "z \<in> set ys"
      then have "not_after y z" using Cons.prems(2) by simp
      with xy show "not_after x z"
        using not_after_keyed_trans [of x y z] Cons.prems(3,4) z by simp
    qed
    with xy zs Cons.prems(2) show ?thesis by simp
  qed
qed

lemma sorted_py_sort_by:
  assumes "py_sort_by price_key xs = Inr ys" and "\<forall>x \<in> set xs. keyed x"
  shows "sorted_wrt not_after ys \<and> set ys = set xs"
  using assms
proof (induction xs arbitrary: ys)
  case Nil
  then show ?case by simp
next
  case (Cons x xs)
  from Cons.prems(1) obtain r where r: "py_sort_by price_key xs = Inr r"
    and ys: "insort_by price_key x r = Inr ys"
    by (auto simp: bind_eq_Inr)
  from Cons.IH [OF r] Cons.prems(2) have s: "sorted_wrt not_after r" and e: "set r = set xs"
    by simp_all
  have "sorted_wrt not_after ys"
    using sorted_insort_by [OF ys s] Cons.prems(2) e by simp
  moreover have "set ys = set (x # xs)" using set_insort_by [OF ys] e by simp
  ultimately show ?case by simp
qed

lemma sorted_wrt_take5: "sorted_wrt P xs \<Longrightarrow> sorted_wrt P (take n xs)"
  by (metis append_take_drop_id sorted_wrt_append)

lemma process_body_sorted:
  assumes "process_body env fd s d dd rd = Inr r"
  shows "\<exists>top price_insights. r = success_result env top price_insights s d dd rd
           \<and> length top \<le> 5 \<and> sorted_wrt not_after top"
proof -
  from process_body_Inr [OF assms] obtain raw flights sorted_flights price_insights
    where m: "mapM (enhance_flight env s d dd rd) raw = Inr flights"
      and so: "py_sort_by price_key flights = Inr sorted_flights"
      and r: "r = success_result env (take 5 sorted_flights) price_insights s d dd rd"
    by blast
  have "\<forall>x \<in> set flights. keyed x"
    using mapM_Inr [OF m] enhance_flight_price unfolding keyed_def by blast
  with sorted_py_sort_by [OF so] have "sorted_wrt not_after sorted_flights" by simp
  then have "sorted_wrt not_after (take 5 sorted_flights)" by (rule sorted_wrt_take5)
  with r show ?thesis by auto
qed

text \<open>
  Claim C1, on the response with a flight priced 500 followed by a flight without a price:
  the call succeeds and the flight without a price comes first. Its price was defaulted
  to 0 when the record was read, so the default \<open>float("inf")\<close> of the sort key is never
  used.
\<close>

theorem unpriced_flight_sorts_first:
  "field (process_flight_data (answering JNull) priced_then_unpriced ''JFK'' ''LAX''
            ''2025-03-06'' None) ''success'' = Some (JBool True)
   \<and> map (\<lambda>f. (field f ''booking_token'', field f ''price'', field f ''price_formatted''))
        (elements (field (process_flight_data (answering JNull) priced_then_unpriced ''JFK''
                            ''LAX'' ''2025-03-06'' None) ''flights''))
     = [(Some (JStr ''B''), Some (JInt 0), Some (JStr ''Price not available'')),
        (Some (JStr ''A''), Some (JInt 500), Some (JStr ''$500''))]"
  by code_simp

section \<open>Fields of the responses\<close>

lemma handle_results_shape:
  assumes "handle_results env results s d dd rd cur = Inr r"
  shows "(\<exists>fl. field r ''flights'' = Some (JList fl))
         \<and> (field r ''success'' = Some (JBool True) \<and> field r ''error'' = None
            \<or> field r ''success'' = Some (JBool False) \<and> (\<exists>m. field r ''error'' = Some (JStr m)))"
proof -
  from assms consider
      (err) m where "r = JObj [(''success'', JBool False), (''error'', JStr m), (''flights'', JList [])]"
    | (norm) "r = process_flight_data env results s d dd rd"
    | (none) "r = no_flights_found env s d dd rd cur"
    by (auto simp: handle_results_def bind_eq_Inr split: if_splits)
  then show ?thesis
  proof cases
    case err then show ?thesis by simp
  next
    case norm
    with process_flight_data_shape [of env results s d dd rd] show ?thesis
      by (auto simp: success_result_def process_failure_def)
  next
    case none then show ?thesis by (simp add: no_flights_found_def)
  qed
qed

lemma search_flights_shape:
  "\<exists>r. snd (search_flights env ctx s d dd rd cur) = Inr r
       \<and> (\<exists>fl. field r ''flights'' = Some (JList fl))
       \<and> (field r ''success'' = Some (JBool True) \<and> field r ''error'' = None
          \<or> field r ''success'' = Some (JBool False) \<and> (\<exists>m. field r ''error'' = Some (JStr m)))"
proof (cases "search_flights_body env s d dd rd cur")
  case (Pair calls res)
  show ?thesis
  proof (cases res)
    case (Inl e)
    with Pair show ?thesis by (simp add: search_flights_def flights_failure_def)
  next
    case (Inr r)
    with Pair consider "r = validation_error" | "r = config_error ''flights''"
      | results where "handle_results env results s d dd rd cur = Inr r"
      by (auto simp: search_flights_body_def Let_def bind_eq_Inr split: if_splits)
    then have "(\<exists>fl. field r ''flights'' = Some (JList fl))
       \<and> (field r ''success'' = Some (JBool True) \<and> field r ''error'' = None
          \<or> field r ''success'' = Some (JBool False) \<and> (\<exists>m. field r ''error'' = Some (JStr m)))"
    proof cases
      case 1 then show ?thesis by (simp add: validation_error_def)
    next
      case 2 then show ?thesis by (simp add: config_error_def)
    next
      case 3 then show ?thesis by (rule handle_results_shape)
    qed
    with Pair Inr show ?thesis by (simp add: search_flights_def)
  qed
qed

lemma search_airports_shape:
  assumes "snd (search_airports env ctx query) = Inr r"
  shows "field r ''success'' = Some (JBool True) \<and> field r ''error'' = None
           \<and> (\<exists>v. field r ''serpapi_response'' = Some v) \<and> field r ''airports'' = None
         \<or> field r ''success'' = Some (JBool False) \<and> (\<exists>m. field r ''error'' = Some (JStr m))
           \<and> field r ''airports'' = Some (JList []) \<and> field r ''serpapi_response'' = None"
  using assms
  by (auto simp: search_airports_def search_airports_body_def Let_def bind_eq_Inr
      config_error_def ctx_error_def split: if_splits prod.splits sum.splits)

lemma get_flight_prices_shape:
  assumes "snd (get_flight_prices env ctx s d sd ed cur) = Inr r"
  shows "field r ''success'' = Some (JBool True) \<and> field r ''error'' = None
           \<and> (\<exists>v. field r ''serpapi_response'' = Some v) \<and> field r ''price_trends'' = None
         \<or> field r ''success'' = Some (JBool False) \<and> (\<exists>m. field r ''error'' = Some (JStr m))
           \<and> field r ''price_trends'' = Some (JList []) \<and> field r ''serpapi_response'' = None"
  using assms
  by (auto simp: get_flight_prices_def get_flight_prices_body_def Let_def bind_eq_Inr
      config_error_def ctx_error_def split: if_splits prod.splits sum.splits)

text \<open>
  Claim C2, as the code has it. Every response has \<open>success\<close>, and has \<open>error\<close> exactly
  when \<open>success\<close> is false. \<open>search_flights\<close> always returns, and its response always has
  \<open>flights\<close>. A response of \<open>search_airports\<close> has \<open>serpapi_response\<close> when \<open>success\<close>
  is true and an empty \<open>airports\<close> list instead when it is false; a response of
  \<open>get_flight_prices\<close> has \<open>serpapi_response\<close> when \<open>success\<close> is true and an empty
  \<open>price_trends\<close> list instead when it is false.
\<close>

theorem response_fields:
  "(\<exists>r. snd (search_flights env ctx s d dd rd cur) = Inr r
       \<and> (\<exists>fl. field r ''flights'' = Some (JList fl))
       \<and> (field r ''success'' = Some (JBool True) \<and> field r ''error'' = None
          \<or> field r ''success'' = Some (JBool False) \<and> (\<exists>m. field r ''error'' = Some (JStr m))))
   \<and> (snd (search_airports env ctx query) = Inr ra \<longrightarrow>
        field ra ''success'' = Some (JBool True) \<and> field ra ''error'' = None
           \<and> (\<exists>v. field ra ''serpapi_response'' = Some v) \<and> field ra ''airports'' = None
         \<or> field ra ''success'' = Some (JBool False) \<and> (\<exists>m. field ra ''error'' = Some (JStr m))
           \<and> field ra ''airports'' = Some (JList []) \<and> field ra ''serpapi_response'' = None)
   \<and> (snd (get_flight_prices env ctx s d sd ed cur) = Inr rp \<longrightarrow>
        field rp ''success'' = Some (JBool True) \<and> field rp ''error'' = None
           \<and> (\<exists>v. field rp ''serpapi_response'' = Some v) \<and> field rp ''price_trends'' = None
         \<or> field rp ''success'' = Some (JBool False) \<and> (\<exists>m. field rp ''error'' = Some (JStr m))
           \<and> field rp ''price_trends'' = Some (JList []) \<and> field rp ''serpapi_response'' = None)"
  using search_flights_shape [of env ctx s d dd rd cur] search_airports_shape [of env ctx query ra]
    get_flight_prices_shape [of env ctx s d sd ed cur rp]
  by blast


theorem response_fields_witness:
  "(\<exists>r. snd (search_airports (answering (JObj [])) True ''LAX'') = Inr r
          \<and> field r ''success'' = Some (JBool True)
          \<and> field r ''error'' = None)
   \<and> (\<exists>r. snd (search_airports unreachable True ''LAX'') = Inr r
          \<and> field r ''success'' = Some (JBool False)
          \<and> field r ''airports'' = Some (JList []))
   \<and> (\<exists>r. snd (get_flight_prices unreachable True ''JFK'' ''LAX'' ''2025-03-06'' ''2025-03-09''
                   ''USD'') = Inr r
          \<and> field r ''success'' = Some (JBool False)
          \<and> field r ''price_trends'' = Some (JList []))"
proof -
  have a: "snd (search_airports (answering (JObj [])) True ''LAX'')
     = Inr (JObj [(''success'', JBool True), (''serpapi_response'', JObj []),
                  (''query'', JStr ''LAX''), (''search_timestamp'', JStr ''2025-03-01T12:00:00'')])"
    by code_simp
  have b: "snd (search_airports unreachable True ''LAX'')
     = Inr (JObj [(''success'', JBool False),
                  (''error'', JStr ''API request failed: connection refused''),
                  (''airports'', JList []), (''query'', JStr ''LAX'')])"
    by code_simp
  have c: "snd (get_flight_prices unreachable True ''JFK'' ''LAX'' ''2025-03-06'' ''2025-03-09''
                  ''USD'')
     = Inr (JObj [(''success'', JBool False),
                  (''error'', JStr ''API request failed: connection refused''),
                  (''price_trends'', JList []),
                  (''search_params'',
                     JObj [(''source'', JStr ''JFK''), (''destination'', JStr ''LAX''),
                           (''start_date'', JStr ''2025-03-06''),
                           (''end_date'', JStr ''2025-03-09''), (''currency'', JStr ''USD'')])])"
    by code_simp
  show ?thesis
    using response_fields [of "answering (JObj [])" True "''JFK''" "''LAX''" "''2025-03-06''" None
              "''USD''" "''LAX''"
              "JObj [(''success'', JBool True), (''serpapi_response'', JObj []),
                  (''query'', JStr ''LAX''), (''search_timestamp'', JStr ''2025-03-01T12:00:00'')]"]
          response_fields [of unreachable True "''JFK''" "''LAX''" "''2025-03-06''" None
              "''USD''" "''LAX''"
              "JObj [(''success'', JBool False),
                  (''error'', JStr ''API request failed: connection refused''),
                  (''airports'', JList []), (''query'', JStr ''LAX'')]"
              "''2025-03-06''" "''2025-03-09''"
              "JObj [(''success'', JBool False),
                  (''error'', JStr ''API request failed: connection refused''),
                  (''price_trends'', JList []),
                  (''search_params'',
                     JObj [(''source'', JStr ''JFK''), (''destination'', JStr ''LAX''),
                           (''start_date'', JStr ''2025-03-06''),
                           (''end_date'', JStr ''2025-03-09''), (''currency'', JStr ''USD'')])]"]
          a b c
    by simp
qed

text \<open>
  The responses that refute claim C2 as the specification states it: a successful
  \<open>search_airports\<close> and a successful \<open>get_flight_prices\<close> have no \<open>error\<close> field, and
  the latter no \<open>price_trends\<close> either; a successful \<open>search_flights\<close> has no \<open>error\<close>
  field; a failed \<open>search_airports\<close> has no \<open>serpapi_response\<close>.
\<close>

theorem response_fields_counterexample:
  "map_sum id (\<lambda>r. (field r ''success'', field r ''serpapi_response'', field r ''error''))
        (snd (search_airports (answering (JObj [])) True ''LAX''))
     = Inr (Some (JBool True), Some (JObj []), None)
   \<and> map_sum id (\<lambda>r. (field r ''success'', field r ''price_trends'', field r ''error''))
        (snd (get_flight_prices (answering (JObj [])) True ''JFK'' ''LAX'' ''2025-03-06''
                ''2025-03-09'' ''USD''))
     = Inr (Some (JBool True), None, None)
   \<and> map_sum id (\<lambda>r. (field r ''success'', field r ''error''))
        (snd (search_flights (answering both_lists) True ''JFK'' ''LAX'' ''2025-03-06'' None
                ''USD''))
     = Inr (Some (JBool True), None)
   \<and> map_sum id (\<lambda>r. (field r ''success'', field r ''serpapi_response''))
        (snd (search_airports unreachable True ''LAX''))
     = Inr (Some (JBool False), None)"
  by code_simp

end
